theory Spec2Isabelle
  imports Main
begin

section \<open>The collaborating library, as the guards see it\<close>

text \<open>
  The header \<^verbatim>\<open>imgui_sugar.hpp\<close> (and its sibling version, which names the same
  pieces \<^verbatim>\<open>ImGuiSugar::BooleanGuard\<close>, \<^verbatim>\<open>IMGUI_SUGAR_...\<close>) only sequences calls
  into Dear ImGui. The library is therefore a parameter of the model: an oracle that, given
  the calls made so far, says how the next call comes back. Everything the header does is
  visible in the trace of calls.

  Names are the header's. A leading underscore is dropped where the header has one
  (\<^verbatim>\<open>_SUGAR_SCOPED_BOOL\<close> is \<open>SUGAR_SCOPED_BOOL\<close>), and the members
  \<^verbatim>\<open>_state\<close>, \<^verbatim>\<open>_end\<close> of the two guards are \<open>g_state\<close>, \<open>g_end\<close> and
  \<open>v_end\<close>.
\<close>

text \<open>C++ types, as far as \<^verbatim>\<open>decltype\<close>, \<^verbatim>\<open>std::is_integral\<close> and
  \<^verbatim>\<open>std::is_arithmetic\<close> tell them apart.\<close>

datatype ctype =
    T_bool | T_char | T_schar | T_uchar | T_wchar | T_char16 | T_char32
  | T_short | T_ushort | T_int | T_uint | T_long | T_ulong | T_llong | T_ullong
  | T_float | T_double | T_ldouble
  | T_enum string
  | T_class string
  | T_ptr ctype
  | T_const ctype
  | T_volatile ctype
  | T_lref ctype
  | T_rref ctype

text \<open>A function of the library: named as at an ordinary call site or a deduced pointer
  (\<^verbatim>\<open>ImGui::BEGIN(...)\<close>, \<^verbatim>\<open>&ImGui::BEGIN\<close>), or the overload that
  \<^verbatim>\<open>&ImGui::BEGIN\<close> denotes when it initialises a pointer of type
  \<^verbatim>\<open>void (*)(Args...)\<close>.\<close>

datatype fn = ImGui string | ImGuiAs string "ctype list"

text \<open>Argument values are opaque to the header, which only forwards them; the one value
  it writes itself is the literal \<^verbatim>\<open>1\<close> of the pop wrappers.\<close>

datatype 'a arg = IntLit int | Arg 'a

datatype 'a event = Call fn "'a arg list"

text \<open>A call comes back with a value (which a \<^verbatim>\<open>void\<close> caller never looks at) or
  raises.\<close>

datatype outcome = Returns bool | Raises nat

type_synonym 'a imgui = "'a event list \<Rightarrow> fn \<Rightarrow> 'a arg list \<Rightarrow> outcome"

definition imgui_call ::
  "'a imgui \<Rightarrow> fn \<Rightarrow> 'a arg list \<Rightarrow> 'a event list \<Rightarrow> outcome \<times> 'a event list" where
  "imgui_call lib f args tr = (lib tr f args, tr @ [Call f args])"

section \<open>RAII guard implementations\<close>

text \<open>How a statement, a constructor or a destructor completes. \<open>Terminate\<close> is
  \<^verbatim>\<open>std::terminate\<close>: what an exception leaving a \<^verbatim>\<open>noexcept\<close>
  function becomes; nothing runs after it.\<close>

datatype completion = Normal | Return | Break | Continue | Throw nat | Terminate

text \<open>\<^verbatim>\<open>using end_fn_ptr = void(*)();\<close> The pointers the macros store:
  \<^verbatim>\<open>&ImGui::END\<close>, \<^verbatim>\<open>&sugar::PopStyleColor\<close>, \<^verbatim>\<open>&sugar::PopStyleVar\<close>.\<close>

datatype end_fn_ptr = ImGuiEnd string | SugarPopStyleColor | SugarPopStyleVar

text \<open>\<^verbatim>\<open>inline void PopStyleColor() { ImGui::PopStyleColor(1); }\<close> and
  \<^verbatim>\<open>inline void PopStyleVar() { ImGui::PopStyleVar(1); }\<close>\<close>

definition PopStyleColor :: "'a imgui \<Rightarrow> 'a event list \<Rightarrow> outcome \<times> 'a event list" where
  "PopStyleColor lib tr = imgui_call lib (ImGui ''PopStyleColor'') [IntLit 1] tr"

definition PopStyleVar :: "'a imgui \<Rightarrow> 'a event list \<Rightarrow> outcome \<times> 'a event list" where
  "PopStyleVar lib tr = imgui_call lib (ImGui ''PopStyleVar'') [IntLit 1] tr"

text \<open>Calling through an \<^verbatim>\<open>end_fn_ptr\<close>: \<^verbatim>\<open>_end()\<close>.\<close>

fun call_end :: "'a imgui \<Rightarrow> end_fn_ptr \<Rightarrow> 'a event list \<Rightarrow> outcome \<times> 'a event list" where
  "call_end lib (ImGuiEnd END) tr = imgui_call lib (ImGui END) [] tr"
| "call_end lib SugarPopStyleColor tr = PopStyleColor lib tr"
| "call_end lib SugarPopStyleVar tr = PopStyleVar lib tr"

text \<open>The body of a \<^verbatim>\<open>noexcept\<close> function that consists of one call.\<close>

fun noexcept :: "outcome \<times> 'a event list \<Rightarrow> completion \<times> 'a event list" where
  "noexcept (Returns b, tr) = (Normal, tr)"
| "noexcept (Raises x, tr) = (Terminate, tr)"

subsection \<open>\<^verbatim>\<open>sugar::guard_bool<AlwaysCallEnd>\<close>\<close>

text \<open>
  \<^verbatim>\<open>guard_bool(const bool state, const end_fn_ptr end) noexcept : _state(state), _end(end) {}\<close>

  \<^verbatim>\<open>~guard_bool() noexcept { if (AlwaysCallEnd || _state) { _end(); } }\<close>

  \<^verbatim>\<open>operator bool() const noexcept { return _state; }\<close>
\<close>

record guard_bool =
  g_state :: bool
  g_end :: end_fn_ptr

definition guard_bool_ctor :: "bool \<Rightarrow> end_fn_ptr \<Rightarrow> guard_bool" where
  "guard_bool_ctor state e = \<lparr>g_state = state, g_end = e\<rparr>"

definition guard_bool_dtor ::
  "bool \<Rightarrow> 'a imgui \<Rightarrow> guard_bool \<Rightarrow> 'a event list \<Rightarrow> completion \<times> 'a event list" where
  "guard_bool_dtor AlwaysCallEnd lib g tr =
     (if AlwaysCallEnd \<or> g_state g then noexcept (call_end lib (g_end g) tr)
      else (Normal, tr))"

definition guard_bool_operator_bool :: "guard_bool \<Rightarrow> bool" where
  "guard_bool_operator_bool g = g_state g"

subsection \<open>\<^verbatim>\<open>sugar::guard_void<Args...>\<close>\<close>

record guard_void =
  v_end :: end_fn_ptr

text \<open>
  \<^verbatim>\<open>guard_void(begin_fn_t begin, end_fn_ptr end, Args&&... args) noexcept : _end(end) { begin(std::forward<Args>(args)...); }\<close>

  \<^verbatim>\<open>~guard_void() noexcept { _end(); }\<close>

  \<^verbatim>\<open>constexpr operator bool() const noexcept { return true; }\<close>

  The constructor is \<^verbatim>\<open>noexcept\<close> and calls \<^verbatim>\<open>begin\<close> in its body:
  \<open>Inr\<close> is the constructed object, \<open>Inl\<close> the completion when there is none.
\<close>

definition guard_void_ctor ::
  "'a imgui \<Rightarrow> fn \<Rightarrow> end_fn_ptr \<Rightarrow> 'a arg list \<Rightarrow> 'a event list \<Rightarrow>
     (completion \<times> 'a event list) + (guard_void \<times> 'a event list)" where
  "guard_void_ctor lib begin e args tr =
     (case imgui_call lib begin args tr of
        (Returns b, tr') \<Rightarrow> Inr (\<lparr>v_end = e\<rparr>, tr')
      | (Raises x, tr') \<Rightarrow> Inl (Terminate, tr'))"

definition guard_void_dtor ::
  "'a imgui \<Rightarrow> guard_void \<Rightarrow> 'a event list \<Rightarrow> completion \<times> 'a event list" where
  "guard_void_dtor lib g tr = noexcept (call_end lib (v_end g) tr)"

definition guard_void_operator_bool :: "guard_void \<Rightarrow> bool" where
  "guard_void_operator_bool g = True"

subsection \<open>\<^verbatim>\<open>ImGuiSugar::BooleanGuard<AlwaysCallEnd>\<close>\<close>

text \<open>
  \<^verbatim>\<open>BooleanGuard(const bool state, const ScopeEndCallback end) noexcept : m_state(state), m_end(end) {}\<close>

  \<^verbatim>\<open>~BooleanGuard() noexcept { if (AlwaysCallEnd || m_state) { m_end(); } }\<close>

  \<^verbatim>\<open>operator bool() const & noexcept { return m_state; }\<close>
\<close>

record BooleanGuard =
  m_state :: bool
  m_end :: end_fn_ptr

definition BooleanGuard_ctor :: "bool \<Rightarrow> end_fn_ptr \<Rightarrow> BooleanGuard" where
  "BooleanGuard_ctor state e = \<lparr>m_state = state, m_end = e\<rparr>"

definition BooleanGuard_dtor ::
  "bool \<Rightarrow> 'a imgui \<Rightarrow> BooleanGuard \<Rightarrow> 'a event list \<Rightarrow> completion \<times> 'a event list" where
  "BooleanGuard_dtor AlwaysCallEnd lib g tr =
     (if AlwaysCallEnd \<or> m_state g then noexcept (call_end lib (m_end g) tr)
      else (Normal, tr))"

definition BooleanGuard_operator_bool :: "BooleanGuard \<Rightarrow> bool" where
  "BooleanGuard_operator_bool g = m_state g"

section \<open>The statements the macros expand to\<close>

text \<open>The two expressions that initialise a guard's state: the call
  \<^verbatim>\<open>ImGui::BEGIN(args)\<close> itself, and the "portable expression statement"
  \<^verbatim>\<open>([&]() -> bool { FN(args); return true; }())\<close>.\<close>

datatype 'a expr = CallExpr fn "'a arg list" | ExprStmt fn "'a arg list"

definition IMGUI_SUGAR_ES :: "fn \<Rightarrow> 'a arg list \<Rightarrow> 'a expr" where
  "IMGUI_SUGAR_ES FN args = ExprStmt FN args"

definition IMGUI_SUGAR_ES_0 :: "fn \<Rightarrow> 'a expr" where
  "IMGUI_SUGAR_ES_0 FN = ExprStmt FN []"

fun eval_expr ::
  "'a imgui \<Rightarrow> 'a expr \<Rightarrow> 'a event list \<Rightarrow> (completion \<times> 'a event list) + (bool \<times> 'a event list)" where
  "eval_expr lib (CallExpr f args) tr =
     (case imgui_call lib f args tr of
        (Returns b, tr') \<Rightarrow> Inr (b, tr')
      | (Raises x, tr') \<Rightarrow> Inl (Throw x, tr'))"
| "eval_expr lib (ExprStmt f args) tr =
     (case imgui_call lib f args tr of
        (Returns b, tr') \<Rightarrow> Inr (True, tr')
      | (Raises x, tr') \<Rightarrow> Inl (Throw x, tr'))"

text \<open>The guard declarations the macros write:
  \<^verbatim>\<open>const sugar::guard_bool<ALWAYS> g = {expr, &END}\<close>,
  \<^verbatim>\<open>const sugar::guard_void<Args...> g = {&BEGIN, &END, args...}\<close> and
  \<^verbatim>\<open>const ImGuiSugar::BooleanGuard<ALWAYS> g = {expr, &END}\<close>.\<close>

datatype 'a decl =
    Decl_guard_bool bool "'a expr" end_fn_ptr
  | Decl_guard_void fn end_fn_ptr "'a arg list"
  | Decl_BooleanGuard bool "'a expr" end_fn_ptr

text \<open>A guard object alive in some scope, with the template argument of its class.\<close>

datatype guard =
    Obj_guard_bool bool guard_bool
  | Obj_guard_void guard_void
  | Obj_BooleanGuard bool BooleanGuard

fun construct ::
  "'a imgui \<Rightarrow> 'a decl \<Rightarrow> 'a event list \<Rightarrow> (completion \<times> 'a event list) + (guard \<times> 'a event list)" where
  "construct lib (Decl_guard_bool ALWAYS init e) tr =
     (case eval_expr lib init tr of
        Inl r \<Rightarrow> Inl r
      | Inr (state, tr') \<Rightarrow> Inr (Obj_guard_bool ALWAYS (guard_bool_ctor state e), tr'))"
| "construct lib (Decl_guard_void begin e args) tr =
     (case guard_void_ctor lib begin e args tr of
        Inl r \<Rightarrow> Inl r
      | Inr (g, tr') \<Rightarrow> Inr (Obj_guard_void g, tr'))"
| "construct lib (Decl_BooleanGuard ALWAYS init e) tr =
     (case eval_expr lib init tr of
        Inl r \<Rightarrow> Inl r
      | Inr (state, tr') \<Rightarrow> Inr (Obj_BooleanGuard ALWAYS (BooleanGuard_ctor state e), tr'))"

fun destroy :: "'a imgui \<Rightarrow> guard \<Rightarrow> 'a event list \<Rightarrow> completion \<times> 'a event list" where
  "destroy lib (Obj_guard_bool ALWAYS g) tr = guard_bool_dtor ALWAYS lib g tr"
| "destroy lib (Obj_guard_void g) tr = guard_void_dtor lib g tr"
| "destroy lib (Obj_BooleanGuard ALWAYS g) tr = BooleanGuard_dtor ALWAYS lib g tr"

fun operator_bool :: "guard \<Rightarrow> bool" where
  "operator_bool (Obj_guard_bool ALWAYS g) = guard_bool_operator_bool g"
| "operator_bool (Obj_guard_void g) = guard_void_operator_bool g"
| "operator_bool (Obj_BooleanGuard ALWAYS g) = BooleanGuard_operator_bool g"

text \<open>Leaving the scope of a guard, however the scope's statements completed: the
  destructor runs, and the completion goes on outwards. An exception is one that unwinds
  the stack, on its way to a handler. Only a terminated program runs no destructor.\<close>

fun scope_exit ::
  "'a imgui \<Rightarrow> guard \<Rightarrow> completion \<times> 'a event list \<Rightarrow> completion \<times> 'a event list" where
  "scope_exit lib g (c, tr) =
     (if c = Terminate then (Terminate, tr)
      else case destroy lib g tr of
             (Terminate, tr') \<Rightarrow> (Terminate, tr')
           | (c', tr') \<Rightarrow> (c, tr'))"

text \<open>The fragment of C++ around the macros: calls into the library, conditionals on
  them (\<^verbatim>\<open>with_CollapsingHeader\<close> is one), an \<^verbatim>\<open>if\<close> whose condition declares
  a guard, a guard declaration as a statement, compound statements, the jumps, a handler
  \<^verbatim>\<open>try { s } catch (...) { handler }\<close> and a counted loop
  \<^verbatim>\<open>for (i = 0; i < n; ++i) s\<close>.

  The guard of \<^verbatim>\<open>if (const T g = init) body\<close> lives until the end of the
  \<^verbatim>\<open>if\<close> statement. A guard declared by a statement of a block lives until the end
  of the block; a declaration that is the whole substatement of an \<^verbatim>\<open>if\<close> or a
  loop is a block by itself.\<close>

datatype 'a stmt =
    ExprS fn "'a arg list"
  | IfCall fn "'a arg list" "'a stmt"
  | IfDecl "'a decl" "'a stmt"
  | DeclS "'a decl"
  | Block "'a stmt list"
  | ReturnS
  | BreakS
  | ContinueS
  | ThrowS nat
  | TryCatch "'a stmt" "'a stmt"
  | Repeat nat "'a stmt"

function (sequential) exec :: "'a imgui \<Rightarrow> 'a stmt \<Rightarrow> 'a event list \<Rightarrow> completion \<times> 'a event list"
  and exec_block :: "'a imgui \<Rightarrow> 'a stmt list \<Rightarrow> 'a event list \<Rightarrow> completion \<times> 'a event list"
  where
  "exec lib (ExprS f args) tr =
     (case imgui_call lib f args tr of
        (Returns b, tr') \<Rightarrow> (Normal, tr')
      | (Raises x, tr') \<Rightarrow> (Throw x, tr'))"
| "exec lib (IfCall f args body) tr =
     (case imgui_call lib f args tr of
        (Returns b, tr') \<Rightarrow> (if b then exec lib body tr' else (Normal, tr'))
      | (Raises x, tr') \<Rightarrow> (Throw x, tr'))"
| "exec lib (IfDecl d body) tr =
     (case construct lib d tr of
        Inl r \<Rightarrow> r
      | Inr (g, tr') \<Rightarrow>
          scope_exit lib g (if operator_bool g then exec lib body tr' else (Normal, tr')))"
| "exec lib (DeclS d) tr =
     (case construct lib d tr of
        Inl r \<Rightarrow> r
      | Inr (g, tr') \<Rightarrow> scope_exit lib g (Normal, tr'))"
| "exec lib (Block ss) tr = exec_block lib ss tr"
| "exec lib ReturnS tr = (Return, tr)"
| "exec lib BreakS tr = (Break, tr)"
| "exec lib ContinueS tr = (Continue, tr)"
| "exec lib (ThrowS x) tr = (Throw x, tr)"
| "exec lib (TryCatch s handler) tr =
     (case exec lib s tr of
        (Throw x, tr') \<Rightarrow> exec lib handler tr'
      | r \<Rightarrow> r)"
| "exec lib (Repeat 0 s) tr = (Normal, tr)"
| "exec lib (Repeat (Suc n) s) tr =
     (case exec lib s tr of
        (Normal, tr') \<Rightarrow> exec lib (Repeat n s) tr'
      | (Continue, tr') \<Rightarrow> exec lib (Repeat n s) tr'
      | (Break, tr') \<Rightarrow> (Normal, tr')
      | r \<Rightarrow> r)"
| "exec_block lib [] tr = (Normal, tr)"
| "exec_block lib (s # rest) tr =
     (case s of
        DeclS d \<Rightarrow>
          (case construct lib d tr of
             Inl r \<Rightarrow> r
           | Inr (g, tr') \<Rightarrow> scope_exit lib g (exec_block lib rest tr'))
      | _ \<Rightarrow>
          (case exec lib s tr of
             (Normal, tr') \<Rightarrow> exec_block lib rest tr'
           | r \<Rightarrow> r))"
  by pat_completeness auto
termination
  by (relation "inv_image (less_than <*lex*> less_than)
        (\<lambda>x. case x of
                Inl (lib, s, tr) \<Rightarrow> (size s, case s of Repeat n b \<Rightarrow> n | _ \<Rightarrow> 0)
              | Inr (lib, ss, tr) \<Rightarrow> (size_list size ss, 0))") auto

section \<open>Generic macros to simplify repetitive declarations\<close>

text \<open>A macro is a function into syntax. The block-introducing ones end in an open
  \<^verbatim>\<open>if (...)\<close>, so the statement that follows them in the program is their last
  argument here.\<close>

subsection \<open>\<^verbatim>\<open>imgui_sugar.hpp\<close>\<close>

definition SUGAR_SCOPED_BOOL ::
  "string \<Rightarrow> string \<Rightarrow> bool \<Rightarrow> 'a arg list \<Rightarrow> 'a stmt \<Rightarrow> 'a stmt" where
  "SUGAR_SCOPED_BOOL BEGIN END ALWAYS va body =
     IfDecl (Decl_guard_bool ALWAYS (CallExpr (ImGui BEGIN) va) (ImGuiEnd END)) body"

definition SUGAR_SCOPED_VOID_N ::
  "string \<Rightarrow> string \<Rightarrow> 'a arg list \<Rightarrow> 'a stmt \<Rightarrow> 'a stmt" where
  "SUGAR_SCOPED_VOID_N BEGIN END va body =
     IfDecl (Decl_guard_void (ImGui BEGIN) (ImGuiEnd END) va) body"

definition SUGAR_SCOPED_VOID_0 :: "string \<Rightarrow> string \<Rightarrow> 'a stmt \<Rightarrow> 'a stmt" where
  "SUGAR_SCOPED_VOID_0 BEGIN END body =
     IfDecl (Decl_guard_void (ImGui BEGIN) (ImGuiEnd END) []) body"

definition SUGAR_PARENT_SCOPED_VOID_N :: "string \<Rightarrow> string \<Rightarrow> 'a arg list \<Rightarrow> 'a decl" where
  "SUGAR_PARENT_SCOPED_VOID_N BEGIN END va = Decl_guard_void (ImGui BEGIN) (ImGuiEnd END) va"

subsection \<open>The sibling version of the header\<close>

definition IMGUI_SUGAR_SCOPED_BOOL ::
  "string \<Rightarrow> string \<Rightarrow> bool \<Rightarrow> 'a arg list \<Rightarrow> 'a stmt \<Rightarrow> 'a stmt" where
  "IMGUI_SUGAR_SCOPED_BOOL BEGIN END ALWAYS va body =
     IfDecl (Decl_BooleanGuard ALWAYS (CallExpr (ImGui BEGIN) va) (ImGuiEnd END)) body"

definition IMGUI_SUGAR_SCOPED_BOOL_0 ::
  "string \<Rightarrow> string \<Rightarrow> bool \<Rightarrow> 'a stmt \<Rightarrow> 'a stmt" where
  "IMGUI_SUGAR_SCOPED_BOOL_0 BEGIN END ALWAYS body =
     IfDecl (Decl_BooleanGuard ALWAYS (CallExpr (ImGui BEGIN) []) (ImGuiEnd END)) body"

definition IMGUI_SUGAR_SCOPED_VOID_N ::
  "string \<Rightarrow> string \<Rightarrow> 'a arg list \<Rightarrow> 'a stmt \<Rightarrow> 'a stmt" where
  "IMGUI_SUGAR_SCOPED_VOID_N BEGIN END va body =
     IfDecl (Decl_BooleanGuard True (IMGUI_SUGAR_ES (ImGui BEGIN) va) (ImGuiEnd END)) body"

definition IMGUI_SUGAR_SCOPED_VOID_0 :: "string \<Rightarrow> string \<Rightarrow> 'a stmt \<Rightarrow> 'a stmt" where
  "IMGUI_SUGAR_SCOPED_VOID_0 BEGIN END body =
     IfDecl (Decl_BooleanGuard True (IMGUI_SUGAR_ES_0 (ImGui BEGIN)) (ImGuiEnd END)) body"

definition IMGUI_SUGAR_PARENT_SCOPED_VOID_N ::
  "string \<Rightarrow> string \<Rightarrow> 'a arg list \<Rightarrow> 'a decl" where
  "IMGUI_SUGAR_PARENT_SCOPED_VOID_N BEGIN END va =
     Decl_BooleanGuard True (IMGUI_SUGAR_ES (ImGui BEGIN) va) (ImGuiEnd END)"

section \<open>ImGui DSL\<close>

subsection \<open>Self scoped blocks\<close>

definition with_Window :: "'a arg list \<Rightarrow> 'a stmt \<Rightarrow> 'a stmt" where
  "with_Window = SUGAR_SCOPED_BOOL ''Begin'' ''End'' True"

definition with_Child :: "'a arg list \<Rightarrow> 'a stmt \<Rightarrow> 'a stmt" where
  "with_Child = SUGAR_SCOPED_BOOL ''BeginChild'' ''EndChild'' True"

definition with_ChildFrame :: "'a arg list \<Rightarrow> 'a stmt \<Rightarrow> 'a stmt" where
  "with_ChildFrame = SUGAR_SCOPED_BOOL ''BeginChildFrame'' ''EndChildFrame'' True"

definition with_Combo :: "'a arg list \<Rightarrow> 'a stmt \<Rightarrow> 'a stmt" where
  "with_Combo = SUGAR_SCOPED_BOOL ''BeginCombo'' ''EndCombo'' False"

definition with_ListBox :: "'a arg list \<Rightarrow> 'a stmt \<Rightarrow> 'a stmt" where
  "with_ListBox = SUGAR_SCOPED_BOOL ''BeginListBox'' ''EndListBox'' False"

definition with_MenuBarArgs :: "'a arg list \<Rightarrow> 'a stmt \<Rightarrow> 'a stmt" where
  "with_MenuBarArgs = SUGAR_SCOPED_BOOL ''BeginMenuBar'' ''EndMenuBar'' False"

definition with_MainMenuBarArgs :: "'a arg list \<Rightarrow> 'a stmt \<Rightarrow> 'a stmt" where
  "with_MainMenuBarArgs = SUGAR_SCOPED_BOOL ''BeginMainMenuBar'' ''EndMainMenuBar'' False"

definition with_Menu :: "'a arg list \<Rightarrow> 'a stmt \<Rightarrow> 'a stmt" where
  "with_Menu = SUGAR_SCOPED_BOOL ''BeginMenu'' ''EndMenu'' False"

definition with_Popup :: "'a arg list \<Rightarrow> 'a stmt \<Rightarrow> 'a stmt" where
  "with_Popup = SUGAR_SCOPED_BOOL ''BeginPopup'' ''EndPopup'' False"

definition with_PopupModal :: "'a arg list \<Rightarrow> 'a stmt \<Rightarrow> 'a stmt" where
  "with_PopupModal = SUGAR_SCOPED_BOOL ''BeginPopupModal'' ''EndPopup'' False"

definition with_PopupContextItem :: "'a arg list \<Rightarrow> 'a stmt \<Rightarrow> 'a stmt" where
  "with_PopupContextItem = SUGAR_SCOPED_BOOL ''BeginPopupContextItem'' ''EndPopup'' False"

definition with_PopupContextWindow :: "'a arg list \<Rightarrow> 'a stmt \<Rightarrow> 'a stmt" where
  "with_PopupContextWindow = SUGAR_SCOPED_BOOL ''BeginPopupContextWindow'' ''EndPopup'' False"

definition with_PopupContextVoid :: "'a arg list \<Rightarrow> 'a stmt \<Rightarrow> 'a stmt" where
  "with_PopupContextVoid = SUGAR_SCOPED_BOOL ''BeginPopupContextVoid'' ''EndPopup'' False"

definition with_Table :: "'a arg list \<Rightarrow> 'a stmt \<Rightarrow> 'a stmt" where
  "with_Table = SUGAR_SCOPED_BOOL ''BeginTable'' ''EndTable'' False"

definition with_TabBar :: "'a arg list \<Rightarrow> 'a stmt \<Rightarrow> 'a stmt" where
  "with_TabBar = SUGAR_SCOPED_BOOL ''BeginTabBar'' ''EndTabBar'' False"

definition with_TabItem :: "'a arg list \<Rightarrow> 'a stmt \<Rightarrow> 'a stmt" where
  "with_TabItem = SUGAR_SCOPED_BOOL ''BeginTabItem'' ''EndTabItem'' False"

definition with_DragDropSource :: "'a arg list \<Rightarrow> 'a stmt \<Rightarrow> 'a stmt" where
  "with_DragDropSource = SUGAR_SCOPED_BOOL ''BeginDragDropSource'' ''EndDragDropSource'' False"

definition with_DragDropTargetArgs :: "'a arg list \<Rightarrow> 'a stmt \<Rightarrow> 'a stmt" where
  "with_DragDropTargetArgs = SUGAR_SCOPED_BOOL ''BeginDragDropTarget'' ''EndDragDropTarget'' False"

definition with_TreeNode :: "'a arg list \<Rightarrow> 'a stmt \<Rightarrow> 'a stmt" where
  "with_TreeNode = SUGAR_SCOPED_BOOL ''TreeNode'' ''TreePop'' False"

definition with_TreeNodeV :: "'a arg list \<Rightarrow> 'a stmt \<Rightarrow> 'a stmt" where
  "with_TreeNodeV = SUGAR_SCOPED_BOOL ''TreeNodeV'' ''TreePop'' False"

definition with_TreeNodeEx :: "'a arg list \<Rightarrow> 'a stmt \<Rightarrow> 'a stmt" where
  "with_TreeNodeEx = SUGAR_SCOPED_BOOL ''TreeNodeEx'' ''TreePop'' False"

definition with_TreeNodeExV :: "'a arg list \<Rightarrow> 'a stmt \<Rightarrow> 'a stmt" where
  "with_TreeNodeExV = SUGAR_SCOPED_BOOL ''TreeNodeExV'' ''TreePop'' False"

definition with_DragDropTarget :: "'a stmt \<Rightarrow> 'a stmt" where
  "with_DragDropTarget = with_DragDropTargetArgs []"

definition with_MainMenuBar :: "'a stmt \<Rightarrow> 'a stmt" where
  "with_MainMenuBar = with_MainMenuBarArgs []"

definition with_MenuBar :: "'a stmt \<Rightarrow> 'a stmt" where
  "with_MenuBar = with_MenuBarArgs []"

definition with_Group :: "'a stmt \<Rightarrow> 'a stmt" where
  "with_Group = SUGAR_SCOPED_VOID_0 ''BeginGroup'' ''EndGroup''"

definition with_Tooltip :: "'a stmt \<Rightarrow> 'a stmt" where
  "with_Tooltip = SUGAR_SCOPED_VOID_0 ''BeginTooltip'' ''EndTooltip''"

definition with_Font :: "'a arg list \<Rightarrow> 'a stmt \<Rightarrow> 'a stmt" where
  "with_Font = SUGAR_SCOPED_VOID_N ''PushFont'' ''PopFont''"

definition with_AllowKeyboardFocus :: "'a arg list \<Rightarrow> 'a stmt \<Rightarrow> 'a stmt" where
  "with_AllowKeyboardFocus = SUGAR_SCOPED_VOID_N ''PushAllowKeyboardFocus'' ''PopAllowKeyboardFocus''"

definition with_ButtonRepeat :: "'a arg list \<Rightarrow> 'a stmt \<Rightarrow> 'a stmt" where
  "with_ButtonRepeat = SUGAR_SCOPED_VOID_N ''PushButtonRepeat'' ''PopButtonRepeat''"

definition with_ItemWidth :: "'a arg list \<Rightarrow> 'a stmt \<Rightarrow> 'a stmt" where
  "with_ItemWidth = SUGAR_SCOPED_VOID_N ''PushItemWidth'' ''PopItemWidth''"

definition with_TextWrapPos :: "'a arg list \<Rightarrow> 'a stmt \<Rightarrow> 'a stmt" where
  "with_TextWrapPos = SUGAR_SCOPED_VOID_N ''PushTextWrapPos'' ''PopTextWrapPos''"

definition with_ID :: "'a arg list \<Rightarrow> 'a stmt \<Rightarrow> 'a stmt" where
  "with_ID = SUGAR_SCOPED_VOID_N ''PushID'' ''PopID''"

definition with_ClipRect :: "'a arg list \<Rightarrow> 'a stmt \<Rightarrow> 'a stmt" where
  "with_ClipRect = SUGAR_SCOPED_VOID_N ''PushClipRect'' ''PopClipRect''"

definition with_TextureID :: "'a arg list \<Rightarrow> 'a stmt \<Rightarrow> 'a stmt" where
  "with_TextureID = SUGAR_SCOPED_VOID_N ''PushTextureID'' ''PopTextureID''"

text \<open>The sibling version writes the three entries without arguments on
  \<^verbatim>\<open>IMGUI_SUGAR_SCOPED_BOOL_0\<close>; its other entries are those above, on its own
  macros.\<close>

definition ImGuiSugar_with_DragDropTarget :: "'a stmt \<Rightarrow> 'a stmt" where
  "ImGuiSugar_with_DragDropTarget =
     IMGUI_SUGAR_SCOPED_BOOL_0 ''BeginDragDropTarget'' ''EndDragDropTarget'' False"

definition ImGuiSugar_with_MainMenuBar :: "'a stmt \<Rightarrow> 'a stmt" where
  "ImGuiSugar_with_MainMenuBar =
     IMGUI_SUGAR_SCOPED_BOOL_0 ''BeginMainMenuBar'' ''EndMainMenuBar'' False"

definition ImGuiSugar_with_MenuBar :: "'a stmt \<Rightarrow> 'a stmt" where
  "ImGuiSugar_with_MenuBar =
     IMGUI_SUGAR_SCOPED_BOOL_0 ''BeginMenuBar'' ''EndMenuBar'' False"

subsection \<open>Non self scoped guards (managed by parent scope)\<close>

definition set_Font :: "'a arg list \<Rightarrow> 'a decl" where
  "set_Font = SUGAR_PARENT_SCOPED_VOID_N ''PushFont'' ''PopFont''"

definition set_AllowKeyboardFocus :: "'a arg list \<Rightarrow> 'a decl" where
  "set_AllowKeyboardFocus = SUGAR_PARENT_SCOPED_VOID_N ''PushAllowKeyboardFocus'' ''PopAllowKeyboardFocus''"

definition set_ButtonRepeat :: "'a arg list \<Rightarrow> 'a decl" where
  "set_ButtonRepeat = SUGAR_PARENT_SCOPED_VOID_N ''PushButtonRepeat'' ''PopButtonRepeat''"

definition set_ItemWidth :: "'a arg list \<Rightarrow> 'a decl" where
  "set_ItemWidth = SUGAR_PARENT_SCOPED_VOID_N ''PushItemWidth'' ''PopItemWidth''"

definition set_TextWrapPos :: "'a arg list \<Rightarrow> 'a decl" where
  "set_TextWrapPos = SUGAR_PARENT_SCOPED_VOID_N ''PushTextWrapPos'' ''PopTextWrapPos''"

definition set_ID :: "'a arg list \<Rightarrow> 'a decl" where
  "set_ID = SUGAR_PARENT_SCOPED_VOID_N ''PushID'' ''PopID''"

definition set_ClipRect :: "'a arg list \<Rightarrow> 'a decl" where
  "set_ClipRect = SUGAR_PARENT_SCOPED_VOID_N ''PushClipRect'' ''PopClipRect''"

definition set_TextureID :: "'a arg list \<Rightarrow> 'a decl" where
  "set_TextureID = SUGAR_PARENT_SCOPED_VOID_N ''PushTextureID'' ''PopTextureID''"

subsection \<open>Special case (overloaded functions StyleColor and StyleVar)\<close>

text \<open>\<^verbatim>\<open><type_traits>\<close>: \<^verbatim>\<open>std::is_integral\<close>, \<^verbatim>\<open>std::is_floating_point\<close>,
  \<^verbatim>\<open>std::is_arithmetic\<close> (which look through \<^verbatim>\<open>const\<close> and \<^verbatim>\<open>volatile\<close>,
  and through nothing else) and \<^verbatim>\<open>std::conditional<B, T, F>::type\<close>.\<close>

fun is_integral :: "ctype \<Rightarrow> bool" where
  "is_integral (T_const t) = is_integral t"
| "is_integral (T_volatile t) = is_integral t"
| "is_integral T_bool = True"
| "is_integral T_char = True"
| "is_integral T_schar = True"
| "is_integral T_uchar = True"
| "is_integral T_wchar = True"
| "is_integral T_char16 = True"
| "is_integral T_char32 = True"
| "is_integral T_short = True"
| "is_integral T_ushort = True"
| "is_integral T_int = True"
| "is_integral T_uint = True"
| "is_integral T_long = True"
| "is_integral T_ulong = True"
| "is_integral T_llong = True"
| "is_integral T_ullong = True"
| "is_integral t = False"

fun is_floating_point :: "ctype \<Rightarrow> bool" where
  "is_floating_point (T_const t) = is_floating_point t"
| "is_floating_point (T_volatile t) = is_floating_point t"
| "is_floating_point T_float = True"
| "is_floating_point T_double = True"
| "is_floating_point T_ldouble = True"
| "is_floating_point t = False"

definition is_arithmetic :: "ctype \<Rightarrow> bool" where
  "is_arithmetic t = (is_integral t \<or> is_floating_point t)"

definition conditional :: "bool \<Rightarrow> ctype \<Rightarrow> ctype \<Rightarrow> ctype" where
  "conditional B T F = (if B then T else F)"

text \<open>Modelled from the spec: the declarations of \<^verbatim>\<open>imgui.h\<close> that the two macros name
  (the library's header is not among the sources). "A push color operation accepting
  either a packed numeric color or a four-component floating vector, and a push style
  variable operation accepting either a scalar or a two-component vector."\<close>

definition ImU32 :: ctype where "ImU32 = T_uint"
definition ImGuiCol :: ctype where "ImGuiCol = T_int"
definition ImGuiStyleVar :: ctype where "ImGuiStyleVar = T_int"
definition ImVec2 :: ctype where "ImVec2 = T_class ''ImVec2''"
definition ImVec4 :: ctype where "ImVec4 = T_class ''ImVec4''"

definition PushStyleColor_overloads :: "ctype list list" where
  "PushStyleColor_overloads = [[ImGuiCol, ImU32], [ImGuiCol, T_lref (T_const ImVec4)]]"

definition PushStyleVar_overloads :: "ctype list list" where
  "PushStyleVar_overloads = [[ImGuiStyleVar, T_float], [ImGuiStyleVar, T_lref (T_const ImVec2)]]"

text \<open>\<^verbatim>\<open>&ImGui::BEGIN\<close> initialising a \<^verbatim>\<open>begin_fn_t = void (*)(Args...)\<close>: the
  overload whose parameter types are exactly \<open>Args\<close>, if there is one.\<close>

definition address_of :: "string \<Rightarrow> ctype list list \<Rightarrow> ctype list \<Rightarrow> fn option" where
  "address_of name overloads Args =
     (if Args \<in> set overloads then Some (ImGuiAs name Args) else None)"

text \<open>The template arguments the two macros write, from \<^verbatim>\<open>decltype(__VA_ARGS__)\<close>.\<close>

definition set_StyleColor_Args :: "ctype \<Rightarrow> ctype list" where
  "set_StyleColor_Args decltype_va =
     [ImGuiCol, conditional (is_integral decltype_va) ImU32 (T_lref (T_const ImVec4))]"

definition set_StyleVar_Args :: "ctype \<Rightarrow> ctype list" where
  "set_StyleVar_Args decltype_va =
     [ImGuiStyleVar, conditional (is_arithmetic decltype_va) T_float (T_lref (T_const ImVec2))]"

definition set_StyleColor :: "ctype \<Rightarrow> 'a arg \<Rightarrow> 'a arg \<Rightarrow> 'a decl" where
  "set_StyleColor decltype_va ITEM va =
     Decl_guard_void (ImGuiAs ''PushStyleColor'' (set_StyleColor_Args decltype_va))
       SugarPopStyleColor [ITEM, va]"

definition set_StyleVar :: "ctype \<Rightarrow> 'a arg \<Rightarrow> 'a arg \<Rightarrow> 'a decl" where
  "set_StyleVar decltype_va ITEM va =
     Decl_guard_void (ImGuiAs ''PushStyleVar'' (set_StyleVar_Args decltype_va))
       SugarPopStyleVar [ITEM, va]"

definition with_StyleColor :: "ctype \<Rightarrow> 'a arg \<Rightarrow> 'a arg \<Rightarrow> 'a stmt \<Rightarrow> 'a stmt" where
  "with_StyleColor decltype_va ITEM va body = IfDecl (set_StyleColor decltype_va ITEM va) body"

definition with_StyleVar :: "ctype \<Rightarrow> 'a arg \<Rightarrow> 'a arg \<Rightarrow> 'a stmt \<Rightarrow> 'a stmt" where
  "with_StyleVar decltype_va ITEM va body = IfDecl (set_StyleVar decltype_va ITEM va) body"

text \<open>The sibling version leaves the choice of the overload to the call inside the
  expression statement.\<close>

definition ImGuiSugar_set_StyleColor :: "'a arg list \<Rightarrow> 'a decl" where
  "ImGuiSugar_set_StyleColor va =
     Decl_BooleanGuard True (IMGUI_SUGAR_ES (ImGui ''PushStyleColor'') va) SugarPopStyleColor"

definition ImGuiSugar_set_StyleVar :: "'a arg list \<Rightarrow> 'a decl" where
  "ImGuiSugar_set_StyleVar va =
     Decl_BooleanGuard True (IMGUI_SUGAR_ES (ImGui ''PushStyleVar'') va) SugarPopStyleVar"

definition ImGuiSugar_with_StyleColor :: "'a arg list \<Rightarrow> 'a stmt \<Rightarrow> 'a stmt" where
  "ImGuiSugar_with_StyleColor va body =
     IfDecl (Decl_BooleanGuard True (IMGUI_SUGAR_ES (ImGui ''PushStyleColor'') va)
               SugarPopStyleColor) body"

definition ImGuiSugar_with_StyleVar :: "'a arg list \<Rightarrow> 'a stmt \<Rightarrow> 'a stmt" where
  "ImGuiSugar_with_StyleVar va body =
     IfDecl (Decl_BooleanGuard True (IMGUI_SUGAR_ES (ImGui ''PushStyleVar'') va)
               SugarPopStyleVar) body"

subsection \<open>Non RAII\<close>

definition with_CollapsingHeader :: "'a arg list \<Rightarrow> 'a stmt \<Rightarrow> 'a stmt" where
  "with_CollapsingHeader va body = IfCall (ImGui ''CollapsingHeader'') va body"

definition with_MenuItem :: "'a arg list \<Rightarrow> 'a stmt \<Rightarrow> 'a stmt" where
  "with_MenuItem va body = IfCall (ImGui ''MenuItem'') va body"

section \<open>Observing a run\<close>

text \<open>The library calls that one invocation through an \<^verbatim>\<open>end_fn_ptr\<close> makes.\<close>

fun end_calls :: "end_fn_ptr \<Rightarrow> 'a event list" where
  "end_calls (ImGuiEnd END) = [Call (ImGui END) []]"
| "end_calls SugarPopStyleColor = [Call (ImGui ''PopStyleColor'') [IntLit 1]]"
| "end_calls SugarPopStyleVar = [Call (ImGui ''PopStyleVar'') [IntLit 1]]"

text \<open>The begin call a guard declaration makes, and the end-function it binds.\<close>

fun init_call :: "'a expr \<Rightarrow> 'a event" where
  "init_call (CallExpr f va) = Call f va"
| "init_call (ExprStmt f va) = Call f va"

fun begin_call :: "'a decl \<Rightarrow> 'a event" where
  "begin_call (Decl_guard_bool ALWAYS init e) = init_call init"
| "begin_call (Decl_guard_void f e va) = Call f va"
| "begin_call (Decl_BooleanGuard ALWAYS init e) = init_call init"

fun end_of :: "'a decl \<Rightarrow> end_fn_ptr" where
  "end_of (Decl_guard_bool ALWAYS init e) = e"
| "end_of (Decl_guard_void f e va) = e"
| "end_of (Decl_BooleanGuard ALWAYS init e) = e"

fun guard_end :: "guard \<Rightarrow> end_fn_ptr" where
  "guard_end (Obj_guard_bool ALWAYS g) = g_end g"
| "guard_end (Obj_guard_void g) = v_end g"
| "guard_end (Obj_BooleanGuard ALWAYS g) = m_end g"

text \<open>Whether the destructor of a guard takes the branch that calls the end-function.\<close>

fun releases :: "guard \<Rightarrow> bool" where
  "releases (Obj_guard_bool ALWAYS g) = (ALWAYS \<or> g_state g)"
| "releases (Obj_guard_void g) = True"
| "releases (Obj_BooleanGuard ALWAYS g) = (ALWAYS \<or> m_state g)"

fun returns :: "outcome \<Rightarrow> bool" where
  "returns (Returns b) = True"
| "returns (Raises x) = False"

text \<open>A construct is entered at a point of the run when its begin-function returns there
  and the guard converts to true: a boolean begin-function has to return true, the
  expression statement and the void guard only have to return.\<close>

fun init_true :: "'a imgui \<Rightarrow> 'a expr \<Rightarrow> 'a event list \<Rightarrow> bool" where
  "init_true lib (CallExpr f va) tr = (lib tr f va = Returns True)"
| "init_true lib (ExprStmt f va) tr = returns (lib tr f va)"

fun entered :: "'a imgui \<Rightarrow> 'a decl \<Rightarrow> 'a event list \<Rightarrow> bool" where
  "entered lib (Decl_guard_bool ALWAYS init e) tr = init_true lib init tr"
| "entered lib (Decl_guard_void f e va) tr = returns (lib tr f va)"
| "entered lib (Decl_BooleanGuard ALWAYS init e) tr = init_true lib init tr"

fun all_entered :: "'a imgui \<Rightarrow> 'a decl list \<Rightarrow> 'a event list \<Rightarrow> bool" where
  "all_entered lib [] tr = True"
| "all_entered lib (d # ds) tr = (entered lib d tr \<and> all_entered lib ds (tr @ [begin_call d]))"

text \<open>The end-functions, called one after the other from a point of the run, all return
  (the library's contract for its release functions).\<close>

definition end_returns :: "'a imgui \<Rightarrow> end_fn_ptr \<Rightarrow> 'a event list \<Rightarrow> bool" where
  "end_returns lib e tr = returns (fst (call_end lib e tr))"

fun all_released :: "'a imgui \<Rightarrow> end_fn_ptr list \<Rightarrow> 'a event list \<Rightarrow> bool" where
  "all_released lib [] tr = True"
| "all_released lib (e # es) tr = (end_returns lib e tr \<and> all_released lib es (tr @ end_calls e))"

text \<open>Self-scoped constructs written one inside the other, the first outermost.\<close>

fun nested :: "'a decl list \<Rightarrow> 'a stmt \<Rightarrow> 'a stmt" where
  "nested [] body = body"
| "nested (d # ds) body = IfDecl d (nested ds body)"

fun is_decl :: "'a stmt \<Rightarrow> bool" where
  "is_decl (DeclS d) = True"
| "is_decl s = False"

text \<open>The run of the first statements of a block, up to a point inside the block: either
  one of them left the block, and the guards declared so far were destroyed on the way out,
  or all completed normally and the guards they declared, the latest first, are alive.
  \<open>unwind\<close> destroys such guards in that order.\<close>

fun unwind ::
  "'a imgui \<Rightarrow> guard list \<Rightarrow> completion \<times> 'a event list \<Rightarrow> completion \<times> 'a event list" where
  "unwind lib [] r = r"
| "unwind lib (g # gs) r = unwind lib gs (scope_exit lib g r)"

fun run_prefix ::
  "'a imgui \<Rightarrow> 'a stmt list \<Rightarrow> guard list \<Rightarrow> 'a event list \<Rightarrow>
     (completion \<times> 'a event list) + (guard list \<times> 'a event list)" where
  "run_prefix lib [] gs tr = Inr (gs, tr)"
| "run_prefix lib (s # rest) gs tr =
     (case s of
        DeclS d \<Rightarrow>
          (case construct lib d tr of
             Inl r \<Rightarrow> Inl (unwind lib gs r)
           | Inr (g, tr') \<Rightarrow> run_prefix lib rest (g # gs) tr')
      | _ \<Rightarrow>
          (case exec lib s tr of
             (Normal, tr') \<Rightarrow> run_prefix lib rest gs tr'
           | r \<Rightarrow> Inl (unwind lib gs r)))"

section \<open>Copying a guard\<close>

text \<open>What a class definition says about each of its special member functions, and what
  the language makes of it: a copy constructor that is not declared is declared implicitly,
  and is deleted only when the class declares a move constructor or a move assignment
  operator; a move constructor is declared implicitly only when the class declares no copy
  operation, no move operation and no destructor, and an rvalue is otherwise copied.\<close>

datatype special_member = Not_declared | Defaulted | Deleted | User_provided

record special_members =
  copy_constructor :: special_member
  move_constructor :: special_member
  copy_assignment :: special_member
  move_assignment :: special_member
  destructor :: special_member

definition copy_constructible :: "special_members \<Rightarrow> bool" where
  "copy_constructible c =
     (case copy_constructor c of
        Not_declared \<Rightarrow> move_constructor c = Not_declared \<and> move_assignment c = Not_declared
      | Defaulted \<Rightarrow> True
      | Deleted \<Rightarrow> False
      | User_provided \<Rightarrow> True)"

definition implicit_move_constructor :: "special_members \<Rightarrow> bool" where
  "implicit_move_constructor c =
     (move_constructor c = Not_declared \<and> copy_constructor c = Not_declared \<and>
      copy_assignment c = Not_declared \<and> move_assignment c = Not_declared \<and>
      destructor c = Not_declared)"

definition move_constructible :: "special_members \<Rightarrow> bool" where
  "move_constructible c =
     (case move_constructor c of
        Not_declared \<Rightarrow> implicit_move_constructor c \<or> copy_constructible c
      | Defaulted \<Rightarrow> True
      | Deleted \<Rightarrow> False
      | User_provided \<Rightarrow> True)"

text \<open>The three guard structs declare a constructor, a destructor and the conversion to
  \<^verbatim>\<open>bool\<close>, and nothing else.\<close>

definition guard_bool_members :: special_members where
  "guard_bool_members =
     \<lparr>copy_constructor = Not_declared, move_constructor = Not_declared,
      copy_assignment = Not_declared, move_assignment = Not_declared,
      destructor = User_provided\<rparr>"

definition guard_void_members :: special_members where
  "guard_void_members =
     \<lparr>copy_constructor = Not_declared, move_constructor = Not_declared,
      copy_assignment = Not_declared, move_assignment = Not_declared,
      destructor = User_provided\<rparr>"

definition BooleanGuard_members :: special_members where
  "BooleanGuard_members =
     \<lparr>copy_constructor = Not_declared, move_constructor = Not_declared,
      copy_assignment = Not_declared, move_assignment = Not_declared,
      destructor = User_provided\<rparr>"

text \<open>The implicitly defined copy constructors copy member by member.\<close>

definition guard_bool_copy :: "guard_bool \<Rightarrow> guard_bool" where
  "guard_bool_copy other = \<lparr>g_state = g_state other, g_end = g_end other\<rparr>"

definition guard_void_copy :: "guard_void \<Rightarrow> guard_void" where
  "guard_void_copy other = \<lparr>v_end = v_end other\<rparr>"

definition BooleanGuard_copy :: "BooleanGuard \<Rightarrow> BooleanGuard" where
  "BooleanGuard_copy other = \<lparr>m_state = m_state other, m_end = m_end other\<rparr>"

text \<open>A block that holds a guard and a copy of it:
  \<^verbatim>\<open>{ const sugar::guard_bool<A> a = {state, end}; const sugar::guard_bool<A> b = a; }\<close>.
  The objects of a block are destroyed in the reverse order of their construction.\<close>

definition guard_and_copy ::
  "bool \<Rightarrow> 'a imgui \<Rightarrow> bool \<Rightarrow> end_fn_ptr \<Rightarrow> 'a event list \<Rightarrow> completion \<times> 'a event list" where
  "guard_and_copy A lib state e tr =
     (let a = guard_bool_ctor state e;
          b = guard_bool_copy a
      in scope_exit lib (Obj_guard_bool A a) (scope_exit lib (Obj_guard_bool A b) (Normal, tr)))"

section \<open>The library's style stacks\<close>

text \<open>Modelled from the spec: the depth of the library's style stacks, as far as the
  calls of the header determine it (\<^verbatim>\<open>imgui.h\<close> and the library are not among the
  sources). A push call "pushes one entry onto the collaborating library's internal
  stack"; \<^verbatim>\<open>PopStyleColor(count)\<close> and \<^verbatim>\<open>PopStyleVar(count)\<close> pop
  \<^verbatim>\<open>count\<close> entries, one when called without an argument.\<close>

fun style_color_delta :: "'a event \<Rightarrow> int" where
  "style_color_delta (Call (ImGui name) va) =
     (if name = ''PushStyleColor'' then 1
      else if name = ''PopStyleColor'' then (case va of [IntLit n] \<Rightarrow> - n | _ \<Rightarrow> - 1)
      else 0)"
| "style_color_delta (Call (ImGuiAs name Args) va) =
     (if name = ''PushStyleColor'' then 1 else 0)"

definition style_color_depth :: "'a event list \<Rightarrow> int" where
  "style_color_depth tr = sum_list (map style_color_delta tr)"

fun style_var_delta :: "'a event \<Rightarrow> int" where
  "style_var_delta (Call (ImGui name) va) =
     (if name = ''PushStyleVar'' then 1
      else if name = ''PopStyleVar'' then (case va of [IntLit n] \<Rightarrow> - n | _ \<Rightarrow> - 1)
      else 0)"
| "style_var_delta (Call (ImGuiAs name Args) va) =
     (if name = ''PushStyleVar'' then 1 else 0)"

definition style_var_depth :: "'a event list \<Rightarrow> int" where
  "style_var_depth tr = sum_list (map style_var_delta tr)"

section \<open>Properties\<close>

subsection \<open>Auxiliary facts\<close>

lemma snd_call_end: "snd (call_end lib e tr) = tr @ end_calls e"
  by (cases e) (simp_all add: PopStyleColor_def PopStyleVar_def imgui_call_def)

lemma snd_noexcept: "snd (noexcept r) = snd r"
  by (cases r rule: noexcept.cases) simp_all

lemma call_end_returns:
  assumes "end_returns lib e tr"
  shows "noexcept (call_end lib e tr) = (Normal, tr @ end_calls e)"
proof -
  obtain o1 tr1 where r: "call_end lib e tr = (o1, tr1)"
    by (cases "call_end lib e tr")
  with snd_call_end [of lib e tr] have "tr1 = tr @ end_calls e"
    by simp
  moreover from assms r obtain b where "o1 = Returns b"
    by (cases o1) (simp_all add: end_returns_def)
  ultimately show ?thesis
    using r by simp
qed

lemma eval_expr_true:
  "init_true lib init tr \<Longrightarrow> eval_expr lib init tr = Inr (True, tr @ [init_call init])"
  by (cases init) (auto simp: imgui_call_def split: outcome.splits elim: returns.elims)

lemma entered_construct:
  assumes "entered lib d tr"
  shows "\<exists>g. construct lib d tr = Inr (g, tr @ [begin_call d]) \<and> operator_bool g \<and>
             (\<forall>tr2. end_returns lib (end_of d) tr2 \<longrightarrow>
                     destroy lib g tr2 = (Normal, tr2 @ end_calls (end_of d)))"
proof (cases d)
  case (Decl_guard_bool a init e)
  with assms show ?thesis
    by (simp add: eval_expr_true guard_bool_ctor_def guard_bool_operator_bool_def
        guard_bool_dtor_def call_end_returns)
next
  case (Decl_guard_void f e va)
  with assms show ?thesis
    by (cases "lib tr f va")
       (simp_all add: guard_void_ctor_def imgui_call_def guard_void_operator_bool_def
          guard_void_dtor_def call_end_returns)
next
  case (Decl_BooleanGuard a init e)
  with assms show ?thesis
    by (simp add: eval_expr_true BooleanGuard_ctor_def BooleanGuard_operator_bool_def
        BooleanGuard_dtor_def call_end_returns)
qed

lemma all_released_append:
  "all_released lib (es @ [e]) tr =
     (all_released lib es tr \<and> end_returns lib e (tr @ concat (map end_calls es)))"
  by (induction es arbitrary: tr) auto

lemma entered_construct_destroy:
  assumes "entered lib d tr"
  shows "\<exists>g. construct lib d tr = Inr (g, tr @ [begin_call d]) \<and> operator_bool g \<and>
             (\<forall>tr2. destroy lib g tr2 = noexcept (call_end lib (end_of d) tr2))"
proof (cases d)
  case (Decl_guard_bool a init e)
  with assms show ?thesis
    by (simp add: eval_expr_true guard_bool_ctor_def guard_bool_operator_bool_def
        guard_bool_dtor_def)
next
  case (Decl_guard_void f e va)
  with assms show ?thesis
    by (cases "lib tr f va")
       (simp_all add: guard_void_ctor_def imgui_call_def guard_void_operator_bool_def
          guard_void_dtor_def)
next
  case (Decl_BooleanGuard a init e)
  with assms show ?thesis
    by (simp add: eval_expr_true BooleanGuard_ctor_def BooleanGuard_operator_bool_def
        BooleanGuard_dtor_def)
qed

lemma noexcept_call_end:
  "noexcept (call_end lib e tr) =
     (if end_returns lib e tr then Normal else Terminate, tr @ end_calls e)"
proof -
  obtain o1 tr1 where r: "call_end lib e tr = (o1, tr1)"
    by (cases "call_end lib e tr")
  with snd_call_end [of lib e tr] have "tr1 = tr @ end_calls e"
    by simp
  then show ?thesis
    using r by (cases o1) (simp_all add: end_returns_def)
qed

lemma scope_exit_entered:
  assumes "\<forall>tr2. destroy lib g tr2 = noexcept (call_end lib e tr2)" and "c \<noteq> Terminate"
  shows "scope_exit lib g (c, tr) =
           (if end_returns lib e tr then c else Terminate, tr @ end_calls e)"
  using assms by (simp add: noexcept_call_end)

lemma snd_destroy:
  "snd (destroy lib g tr) = (if releases g then tr @ end_calls (guard_end g) else tr)"
  by (cases g)
     (simp_all add: guard_bool_dtor_def guard_void_dtor_def BooleanGuard_dtor_def
        snd_noexcept snd_call_end)

lemma snd_scope_exit:
  "snd (scope_exit lib g (c, tr)) = (if c = Terminate then tr else snd (destroy lib g tr))"
proof -
  obtain c' tr' where d: "destroy lib g tr = (c', tr')"
    by (cases "destroy lib g tr")
  show ?thesis
    by (cases c') (simp_all add: d)
qed

lemma exec_block_Cons_stmt:
  "\<not> is_decl s \<Longrightarrow>
   exec_block lib (s # rest) tr =
     (case exec lib s tr of (Normal, tr') \<Rightarrow> exec_block lib rest tr' | r \<Rightarrow> r)"
  by (cases s) (simp_all del: exec.simps)

lemma exec_block_Cons_decl:
  "exec_block lib (DeclS d # rest) tr =
     (case construct lib d tr of
        Inl r \<Rightarrow> r
      | Inr (g, tr') \<Rightarrow> scope_exit lib g (exec_block lib rest tr'))"
  by simp

lemma run_prefix_Cons_decl:
  "run_prefix lib (DeclS d # rest) gs tr =
     (case construct lib d tr of
        Inl r \<Rightarrow> Inl (unwind lib gs r)
      | Inr (g, tr') \<Rightarrow> run_prefix lib rest (g # gs) tr')"
  by simp

lemma run_prefix_Cons_stmt:
  "\<not> is_decl s \<Longrightarrow>
   run_prefix lib (s # rest) gs tr =
     (case exec lib s tr of
        (Normal, tr') \<Rightarrow> run_prefix lib rest gs tr'
      | r \<Rightarrow> Inl (unwind lib gs r))"
  by (cases s) (simp_all del: exec.simps)

lemma unwind_exec_block_append:
  "unwind lib gs (exec_block lib (pre @ rest) tr) =
     (case run_prefix lib pre gs tr of
        Inl r \<Rightarrow> r
      | Inr (gs', tr') \<Rightarrow> unwind lib gs' (exec_block lib rest tr'))"
proof (induction pre arbitrary: gs tr)
  case Nil
  then show ?case by simp
next
  case (Cons s pre)
  show ?case
  proof (cases "is_decl s")
    case True
    then obtain d where s: "s = DeclS d" by (cases s) simp_all
    show ?thesis
    proof (cases "construct lib d tr")
      case (Inl r)
      then show ?thesis
        unfolding s append_Cons exec_block_Cons_decl run_prefix_Cons_decl by simp
    next
      case (Inr p)
      obtain g tr' where p: "p = (g, tr')" by (cases p)
      show ?thesis
        unfolding s append_Cons exec_block_Cons_decl run_prefix_Cons_decl Inr p
        using Cons.IH [of "g # gs" tr'] by (simp del: scope_exit.simps)
    qed
  next
    case False
    obtain c1 tr1 where r: "exec lib s tr = (c1, tr1)" by (cases "exec lib s tr")
    show ?thesis
      unfolding append_Cons exec_block_Cons_stmt [OF False] run_prefix_Cons_stmt [OF False] r
      by (cases c1) (simp_all add: Cons.IH)
  qed
qed

lemma destroy_void_eq:
  "destroy lib (Obj_BooleanGuard True \<lparr>m_state = st, m_end = e\<rparr>) tr =
   destroy lib (Obj_guard_void \<lparr>v_end = e\<rparr>) tr"
  by (simp add: BooleanGuard_dtor_def guard_void_dtor_def)

lemma scope_exit_void_eq:
  "scope_exit lib (Obj_BooleanGuard True \<lparr>m_state = st, m_end = e\<rparr>) r =
   scope_exit lib (Obj_guard_void \<lparr>v_end = e\<rparr>) r"
  by (cases r) (simp add: destroy_void_eq del: destroy.simps)

lemma exec_void_guard:
  "exec lib (IfDecl (Decl_guard_void f e va) body) tr =
     (case lib tr f va of
        Returns b \<Rightarrow> scope_exit lib (Obj_guard_void \<lparr>v_end = e\<rparr>)
                       (exec lib body (tr @ [Call f va]))
      | Raises x \<Rightarrow> (Terminate, tr @ [Call f va]))"
  by (simp add: guard_void_ctor_def imgui_call_def guard_void_operator_bool_def
      split: outcome.splits del: scope_exit.simps)

lemma exec_expression_statement_guard:
  "exec lib (IfDecl (Decl_BooleanGuard True (ExprStmt f va) e) body) tr =
     (case lib tr f va of
        Returns b \<Rightarrow> scope_exit lib (Obj_guard_void \<lparr>v_end = e\<rparr>)
                       (exec lib body (tr @ [Call f va]))
      | Raises x \<Rightarrow> (Throw x, tr @ [Call f va]))"
  by (simp add: BooleanGuard_ctor_def imgui_call_def BooleanGuard_operator_bool_def
      scope_exit_void_eq split: outcome.splits del: scope_exit.simps)

lemma exec_block_void_guard:
  "exec_block lib (DeclS (Decl_guard_void f e va) # post) tr =
     (case lib tr f va of
        Returns b \<Rightarrow> scope_exit lib (Obj_guard_void \<lparr>v_end = e\<rparr>)
                       (exec_block lib post (tr @ [Call f va]))
      | Raises x \<Rightarrow> (Terminate, tr @ [Call f va]))"
  by (simp add: guard_void_ctor_def imgui_call_def
      split: outcome.splits del: scope_exit.simps)

lemma exec_block_expression_statement_guard:
  "exec_block lib (DeclS (Decl_BooleanGuard True (ExprStmt f va) e) # post) tr =
     (case lib tr f va of
        Returns b \<Rightarrow> scope_exit lib (Obj_guard_void \<lparr>v_end = e\<rparr>)
                       (exec_block lib post (tr @ [Call f va]))
      | Raises x \<Rightarrow> (Throw x, tr @ [Call f va]))"
  by (simp add: BooleanGuard_ctor_def imgui_call_def
      scope_exit_void_eq split: outcome.splits del: scope_exit.simps)

lemma parent_scoped_forms:
  assumes "(d, f, args, e) \<in>
       {(SUGAR_PARENT_SCOPED_VOID_N BEGIN END va, ImGui BEGIN, va, ImGuiEnd END),
        (IMGUI_SUGAR_PARENT_SCOPED_VOID_N BEGIN END va, ImGui BEGIN, va, ImGuiEnd END),
        (set_StyleColor ty ITEM col,
           ImGuiAs ''PushStyleColor'' (set_StyleColor_Args ty), [ITEM, col], SugarPopStyleColor),
        (set_StyleVar ty ITEM col,
           ImGuiAs ''PushStyleVar'' (set_StyleVar_Args ty), [ITEM, col], SugarPopStyleVar),
        (ImGuiSugar_set_StyleColor va, ImGui ''PushStyleColor'', va, SugarPopStyleColor),
        (ImGuiSugar_set_StyleVar va, ImGui ''PushStyleVar'', va, SugarPopStyleVar)}"
  shows "begin_call d = Call f args \<and> end_of d = e \<and>
         entered lib d tr = returns (lib tr f args)"
  using assms
  by (auto simp: SUGAR_PARENT_SCOPED_VOID_N_def IMGUI_SUGAR_PARENT_SCOPED_VOID_N_def
      set_StyleColor_def set_StyleVar_def ImGuiSugar_set_StyleColor_def
      ImGuiSugar_set_StyleVar_def IMGUI_SUGAR_ES_def)

lemma style_forms:
  assumes "(d :: 'a decl, w, f, args, pop) \<in>
       {(set_StyleColor ty ITEM col, with_StyleColor ty ITEM col body,
           ImGuiAs ''PushStyleColor'' (set_StyleColor_Args ty), [ITEM, col], ''PopStyleColor''),
        (set_StyleVar ty ITEM col, with_StyleVar ty ITEM col body,
           ImGuiAs ''PushStyleVar'' (set_StyleVar_Args ty), [ITEM, col], ''PopStyleVar''),
        (ImGuiSugar_set_StyleColor va, ImGuiSugar_with_StyleColor va body,
           ImGui ''PushStyleColor'', va, ''PopStyleColor''),
        (ImGuiSugar_set_StyleVar va, ImGuiSugar_with_StyleVar va body,
           ImGui ''PushStyleVar'', va, ''PopStyleVar'')}"
  shows "w = IfDecl d body \<and> begin_call d = Call f args \<and>
         end_calls (end_of d) = [Call (ImGui pop) [IntLit 1] :: 'a event] \<and>
         entered lib d tr = returns (lib tr f args) \<and>
         style_color_delta (Call f args) = (if pop = ''PopStyleColor'' then 1 else 0) \<and>
         style_var_delta (Call f args) = (if pop = ''PopStyleVar'' then 1 else 0)"
  using assms
  by (auto simp: set_StyleColor_def set_StyleVar_def with_StyleColor_def with_StyleVar_def
      ImGuiSugar_set_StyleColor_def ImGuiSugar_set_StyleVar_def
      ImGuiSugar_with_StyleColor_def ImGuiSugar_with_StyleVar_def IMGUI_SUGAR_ES_def)

lemmas guard_defs =
  imgui_call_def guard_bool_ctor_def guard_bool_dtor_def guard_bool_operator_bool_def
  guard_void_ctor_def guard_void_dtor_def guard_void_operator_bool_def
  BooleanGuard_ctor_def BooleanGuard_dtor_def BooleanGuard_operator_bool_def

subsection \<open>Self-scoped constructs on a boolean begin-function\<close>

text \<open>
  Claim C1. A self-scoped construct on a boolean begin-function, in either version of the
  header and with or without arguments, whose begin-function returns true: the body runs
  once, from the point right after the begin call, and however it completes (normally, by
  \<^verbatim>\<open>return\<close>, \<^verbatim>\<open>break\<close>, \<^verbatim>\<open>continue\<close> or an exception) the
  end-function is called once, as the last call of the construct, under either release
  policy; the body's completion goes on outwards. (Should the end-function itself raise,
  the \<^verbatim>\<open>noexcept\<close> destructor terminates the program after that one call.)
\<close>

theorem scoped_bool_true_runs_body_then_end:
  assumes "lib tr (ImGui BEGIN) va = Returns True"
    and "exec lib body (tr @ [Call (ImGui BEGIN) va]) = (c, tr')"
    and "c \<noteq> Terminate"
  shows "exec lib (SUGAR_SCOPED_BOOL BEGIN END ALWAYS va body) tr =
           ((case lib tr' (ImGui END) [] of Returns b \<Rightarrow> c | Raises x \<Rightarrow> Terminate),
            tr' @ [Call (ImGui END) []])
       \<and> exec lib (IMGUI_SUGAR_SCOPED_BOOL BEGIN END ALWAYS va body) tr =
           ((case lib tr' (ImGui END) [] of Returns b \<Rightarrow> c | Raises x \<Rightarrow> Terminate),
            tr' @ [Call (ImGui END) []])
       \<and> (va = [] \<longrightarrow>
            exec lib (IMGUI_SUGAR_SCOPED_BOOL_0 BEGIN END ALWAYS body) tr =
              ((case lib tr' (ImGui END) [] of Returns b \<Rightarrow> c | Raises x \<Rightarrow> Terminate),
               tr' @ [Call (ImGui END) []]))"
  using assms
  by (auto simp add: SUGAR_SCOPED_BOOL_def IMGUI_SUGAR_SCOPED_BOOL_def
      IMGUI_SUGAR_SCOPED_BOOL_0_def guard_defs split: outcome.splits)

theorem scoped_bool_true_witness:
  "exec (\<lambda>tr f va. Returns True)
        (with_Window [Arg (0::nat)] (Block [ExprS (ImGui ''Text'') [], ThrowS 3])) [] =
     (Throw 3, [Call (ImGui ''Begin'') [Arg 0], Call (ImGui ''Text'') [],
                Call (ImGui ''End'') []])
   \<and> exec (\<lambda>tr f va. Returns True)
        (ImGuiSugar_with_MenuBar (Block [ExprS (ImGui ''MenuItem'') [], ReturnS]))
        ([] :: nat event list) =
     (Return, [Call (ImGui ''BeginMenuBar'') [], Call (ImGui ''MenuItem'') [],
               Call (ImGui ''EndMenuBar'') []])"
  using scoped_bool_true_runs_body_then_end
    [where lib = "\<lambda>tr f va. Returns True" and tr = "[]" and BEGIN = "''Begin''"
       and va = "[Arg (0::nat)]" and body = "Block [ExprS (ImGui ''Text'') [], ThrowS 3]"
       and c = "Throw 3"
       and tr' = "[Call (ImGui ''Begin'') [Arg 0], Call (ImGui ''Text'') []]"
       and END = "''End''" and ALWAYS = True]
    scoped_bool_true_runs_body_then_end
    [where lib = "\<lambda>tr f va. Returns True" and tr = "[] :: nat event list"
       and BEGIN = "''BeginMenuBar''" and va = "[]"
       and body = "Block [ExprS (ImGui ''MenuItem'') [], ReturnS]"
       and c = Return
       and tr' = "[Call (ImGui ''BeginMenuBar'') [], Call (ImGui ''MenuItem'') []]"
       and END = "''EndMenuBar''" and ALWAYS = False]
  by (simp add: with_Window_def ImGuiSugar_with_MenuBar_def SUGAR_SCOPED_BOOL_def
      IMGUI_SUGAR_SCOPED_BOOL_def IMGUI_SUGAR_SCOPED_BOOL_0_def guard_defs)

text \<open>
  Claim C2. A conditional-release construct (\<^verbatim>\<open>ALWAYS = false\<close>), with or
  without arguments, whose begin-function returns false: the construct completes normally
  having made the begin call and nothing else, whatever its body is, so the body is not
  run and the end-function is not called; and the destructor of a conditional guard whose
  state is false leaves the trace as it found it.
\<close>

theorem conditional_release_false_skips_body_and_end:
  assumes "lib tr (ImGui BEGIN) va = Returns False"
  shows "exec lib (SUGAR_SCOPED_BOOL BEGIN END False va body) tr =
           (Normal, tr @ [Call (ImGui BEGIN) va])
       \<and> exec lib (IMGUI_SUGAR_SCOPED_BOOL BEGIN END False va body) tr =
           (Normal, tr @ [Call (ImGui BEGIN) va])
       \<and> (va = [] \<longrightarrow>
            exec lib (IMGUI_SUGAR_SCOPED_BOOL_0 BEGIN END False body) tr =
              (Normal, tr @ [Call (ImGui BEGIN) []]))
       \<and> guard_bool_dtor False lib (guard_bool_ctor False e) tr' = (Normal, tr')
       \<and> BooleanGuard_dtor False lib (BooleanGuard_ctor False e) tr' = (Normal, tr')"
  using assms
  by (auto simp add: SUGAR_SCOPED_BOOL_def IMGUI_SUGAR_SCOPED_BOOL_def
      IMGUI_SUGAR_SCOPED_BOOL_0_def guard_defs)

theorem conditional_release_false_witness:
  "exec (\<lambda>tr f va. Returns False)
        (with_Combo [Arg (0::nat)] (ExprS (ImGui ''Selectable'') [])) [] =
     (Normal, [Call (ImGui ''BeginCombo'') [Arg 0]])
   \<and> exec (\<lambda>tr f va. Returns False)
        (ImGuiSugar_with_DragDropTarget (ExprS (ImGui ''AcceptDragDropPayload'') []))
        ([] :: nat event list) =
     (Normal, [Call (ImGui ''BeginDragDropTarget'') []])"
  using conditional_release_false_skips_body_and_end
    [where lib = "\<lambda>tr f va. Returns False" and tr = "[]" and BEGIN = "''BeginCombo''"
       and va = "[Arg (0::nat)]" and body = "ExprS (ImGui ''Selectable'') []"
       and END = "''EndCombo''" and e = "ImGuiEnd ''EndCombo''" and tr' = "[]"]
    conditional_release_false_skips_body_and_end
    [where lib = "\<lambda>tr f va. Returns False" and tr = "[] :: nat event list"
       and BEGIN = "''BeginDragDropTarget''"
       and va = "[]" and body = "ExprS (ImGui ''AcceptDragDropPayload'') []"
       and END = "''EndDragDropTarget''" and e = "ImGuiEnd ''EndDragDropTarget''"
       and tr' = "[]"]
  by (simp add: with_Combo_def ImGuiSugar_with_DragDropTarget_def SUGAR_SCOPED_BOOL_def
      IMGUI_SUGAR_SCOPED_BOOL_def IMGUI_SUGAR_SCOPED_BOOL_0_def guard_defs)

text \<open>
  Claim C3. An always-release construct (\<^verbatim>\<open>ALWAYS = true\<close>) whose begin-function
  returns false: the calls of the construct are the begin call and one call of the
  end-function, whatever its body is, so the body is not run; and the destructor of an
  always-release guard whose state is false makes exactly the calls of one invocation of
  its end-function.
\<close>

theorem always_release_false_skips_body_calls_end:
  assumes "lib tr (ImGui BEGIN) va = Returns False"
  shows "exec lib (SUGAR_SCOPED_BOOL BEGIN END True va body) tr =
           ((case lib (tr @ [Call (ImGui BEGIN) va]) (ImGui END) [] of
               Returns b \<Rightarrow> Normal | Raises x \<Rightarrow> Terminate),
            tr @ [Call (ImGui BEGIN) va, Call (ImGui END) []])
       \<and> exec lib (IMGUI_SUGAR_SCOPED_BOOL BEGIN END True va body) tr =
           ((case lib (tr @ [Call (ImGui BEGIN) va]) (ImGui END) [] of
               Returns b \<Rightarrow> Normal | Raises x \<Rightarrow> Terminate),
            tr @ [Call (ImGui BEGIN) va, Call (ImGui END) []])
       \<and> snd (guard_bool_dtor True lib (guard_bool_ctor False e) tr') = tr' @ end_calls e
       \<and> snd (BooleanGuard_dtor True lib (BooleanGuard_ctor False e) tr') = tr' @ end_calls e"
  using assms
  by (simp add: SUGAR_SCOPED_BOOL_def IMGUI_SUGAR_SCOPED_BOOL_def guard_defs
      snd_noexcept snd_call_end split: outcome.splits)

theorem always_release_false_witness:
  "exec (\<lambda>tr f va. Returns False)
        (with_Window [Arg (0::nat)] (ExprS (ImGui ''Text'') [])) [] =
     (Normal, [Call (ImGui ''Begin'') [Arg 0], Call (ImGui ''End'') []])"
  using always_release_false_skips_body_calls_end
    [where lib = "\<lambda>tr f va. Returns False" and tr = "[]" and BEGIN = "''Begin''"
       and va = "[Arg (0::nat)]" and body = "ExprS (ImGui ''Text'') []"
       and END = "''End''"]
  by (simp add: with_Window_def)

subsection \<open>Nesting\<close>

text \<open>
  Claim C5. Self-scoped constructs written one inside the other, each entered in turn
  (so acquired in the order written), around an innermost body that completes in any
  way, an exception included: the end-functions are called after the body in the reverse
  of the order of acquisition, and the body's completion goes on outwards. The
  end-functions are taken to return, as the library promises.
\<close>

theorem nested_release_is_lifo:
  assumes "all_entered lib ds tr"
    and "exec lib body (tr @ map begin_call ds) = (c, tr')"
    and "c \<noteq> Terminate"
    and "all_released lib (rev (map end_of ds)) tr'"
  shows "exec lib (nested ds body) tr =
           (c, tr' @ concat (map end_calls (rev (map end_of ds))))"
  using assms
proof (induction ds arbitrary: tr)
  case Nil
  then show ?case by simp
next
  case (Cons d ds)
  from Cons.prems(1) have ent: "entered lib d tr"
    and rest: "all_entered lib ds (tr @ [begin_call d])" by simp_all
  from Cons.prems(4) have rel: "all_released lib (rev (map end_of ds)) tr'"
    and last: "end_returns lib (end_of d) (tr' @ concat (map end_calls (rev (map end_of ds))))"
    by (simp_all add: all_released_append)
  from Cons.prems(2)
  have body: "exec lib body ((tr @ [begin_call d]) @ map begin_call ds) = (c, tr')"
    by simp
  have inner: "exec lib (nested ds body) (tr @ [begin_call d]) =
                 (c, tr' @ concat (map end_calls (rev (map end_of ds))))"
    by (rule Cons.IH [OF rest body Cons.prems(3) rel])
  from entered_construct [OF ent] obtain g where
    g: "construct lib d tr = Inr (g, tr @ [begin_call d])" "operator_bool g"
       "\<And>tr2. end_returns lib (end_of d) tr2 \<Longrightarrow>
               destroy lib g tr2 = (Normal, tr2 @ end_calls (end_of d))"
    by blast
  show ?case
    using g(1,2) inner Cons.prems(3) g(3) [OF last] by simp
qed

theorem nested_release_is_lifo_witness:
  "exec (\<lambda>tr f va. Returns True)
        (with_Window [] (with_Group (with_TreeNode [Arg (1::nat)] (ThrowS 7)))) [] =
     (Throw 7, [Call (ImGui ''Begin'') [], Call (ImGui ''BeginGroup'') [],
                Call (ImGui ''TreeNode'') [Arg 1],
                Call (ImGui ''TreePop'') [], Call (ImGui ''EndGroup'') [],
                Call (ImGui ''End'') []])"
  using nested_release_is_lifo
    [where lib = "\<lambda>tr f va. Returns True" and tr = "[]"
       and ds = "[Decl_guard_bool True (CallExpr (ImGui ''Begin'') []) (ImGuiEnd ''End''),
                  Decl_guard_void (ImGui ''BeginGroup'') (ImGuiEnd ''EndGroup'') [],
                  Decl_guard_bool False (CallExpr (ImGui ''TreeNode'') [Arg (1::nat)])
                    (ImGuiEnd ''TreePop'')]"
       and body = "ThrowS 7" and c = "Throw 7"
       and tr' = "[Call (ImGui ''Begin'') [], Call (ImGui ''BeginGroup'') [],
                   Call (ImGui ''TreeNode'') [Arg 1]]"]
  by (simp add: with_Window_def with_Group_def with_TreeNode_def SUGAR_SCOPED_BOOL_def
      SUGAR_SCOPED_VOID_0_def end_returns_def imgui_call_def)

subsection \<open>The void guard\<close>

text \<open>
  Claim C4. The void guard, for any begin-function, end-function and argument list.
  Construction makes one call of the begin-function, with the arguments it was given, and
  whatever value that call comes back with the object constructed is the same: it holds
  the end-function. The conversion to \<^verbatim>\<open>bool\<close> is true. Destruction makes the calls
  of one invocation of the end-function, with no condition. So a self-scoped construct on
  the void guard runs its body whenever the begin-function returns, and calls the
  end-function once after it.
\<close>

theorem guard_void_begin_once_true_end_once:
  assumes "lib tr bf va = Returns b"
    and "exec lib body (tr @ [Call bf va]) = (c, tr')"
    and "c \<noteq> Terminate"
  shows "guard_void_ctor lib bf e va tr = Inr (\<lparr>v_end = e\<rparr>, tr @ [Call bf va])
       \<and> guard_void_operator_bool g = True
       \<and> snd (guard_void_dtor lib g trd) = trd @ end_calls (v_end g)
       \<and> exec lib (IfDecl (Decl_guard_void bf e va) body) tr =
           (if end_returns lib e tr' then c else Terminate, tr' @ end_calls e)
       \<and> SUGAR_SCOPED_VOID_N BEGIN END va body =
           IfDecl (Decl_guard_void (ImGui BEGIN) (ImGuiEnd END) va) body
       \<and> SUGAR_SCOPED_VOID_0 BEGIN END body =
           IfDecl (Decl_guard_void (ImGui BEGIN) (ImGuiEnd END) []) body"
proof -
  have ctor: "guard_void_ctor lib bf e va tr = Inr (\<lparr>v_end = e\<rparr>, tr @ [Call bf va])"
    using assms(1) by (simp add: guard_void_ctor_def imgui_call_def)
  have dtor: "snd (guard_void_dtor lib g trd) = trd @ end_calls (v_end g)"
    by (simp add: guard_void_dtor_def snd_noexcept snd_call_end)
  have "exec lib (IfDecl (Decl_guard_void bf e va) body) tr =
          scope_exit lib (Obj_guard_void \<lparr>v_end = e\<rparr>) (c, tr')"
    using assms(1,2) by (simp add: exec_void_guard del: exec.simps)
  also have "\<dots> = (if end_returns lib e tr' then c else Terminate, tr' @ end_calls e)"
    by (rule scope_exit_entered [OF _ assms(3)]) (simp add: guard_void_dtor_def)
  finally show ?thesis
    using ctor dtor
    by (simp add: guard_void_operator_bool_def SUGAR_SCOPED_VOID_N_def
        SUGAR_SCOPED_VOID_0_def del: exec.simps)
qed

theorem guard_void_witness:
  "guard_void_ctor (\<lambda>tr f va. Returns False) (ImGui ''PushID'') (ImGuiEnd ''PopID'')
       [Arg (5::nat)] [] =
     Inr (\<lparr>v_end = ImGuiEnd ''PopID''\<rparr>, [Call (ImGui ''PushID'') [Arg 5]])
   \<and> exec (\<lambda>tr f va. Returns False) (with_ID [Arg (5::nat)] ReturnS) [] =
     (Return, [Call (ImGui ''PushID'') [Arg 5], Call (ImGui ''PopID'') []])"
  using guard_void_begin_once_true_end_once
    [where lib = "\<lambda>tr f va. Returns False" and tr = "[]" and bf = "ImGui ''PushID''"
       and va = "[Arg (5::nat)]" and b = False and body = ReturnS and BEGIN = "''PushID''"
       and c = Return and tr' = "[Call (ImGui ''PushID'') [Arg 5]]"
       and e = "ImGuiEnd ''PopID''" and END = "''PopID''"
       and g = "\<lparr>v_end = ImGuiEnd ''PopID''\<rparr>" and trd = "[]"]
  by (simp add: with_ID_def SUGAR_SCOPED_VOID_N_def SUGAR_SCOPED_VOID_0_def end_returns_def
      guard_defs)

subsection \<open>Parent-scoped constructs\<close>

text \<open>
  Claim C6. A parent-scoped construct is a declaration, not a statement with a body of its
  own. Standing in a block after statements that completed normally, it makes its begin
  call where it stands; whenever that call returns, whatever it returns, the statements
  after it in the block then run, all of them unless one leaves the block; and the
  end-function is called once after them, as the block is left, before the guards declared
  earlier in the block are released in their turn. This holds for
  \<^verbatim>\<open>set_StyleColor\<close> and \<^verbatim>\<open>set_StyleVar\<close> and for both versions of the
  header; each form is listed with the begin call it makes and the end-function it binds.
\<close>

theorem parent_scoped_releases_at_block_close:
  assumes "run_prefix lib pre [] tr = Inr (gs, trp)"
    and "(d, f, args, e) \<in>
       {(SUGAR_PARENT_SCOPED_VOID_N BEGIN END va, ImGui BEGIN, va, ImGuiEnd END),
        (IMGUI_SUGAR_PARENT_SCOPED_VOID_N BEGIN END va, ImGui BEGIN, va, ImGuiEnd END),
        (set_StyleColor ty ITEM col,
           ImGuiAs ''PushStyleColor'' (set_StyleColor_Args ty), [ITEM, col], SugarPopStyleColor),
        (set_StyleVar ty ITEM col,
           ImGuiAs ''PushStyleVar'' (set_StyleVar_Args ty), [ITEM, col], SugarPopStyleVar),
        (ImGuiSugar_set_StyleColor va, ImGui ''PushStyleColor'', va, SugarPopStyleColor),
        (ImGuiSugar_set_StyleVar va, ImGui ''PushStyleVar'', va, SugarPopStyleVar)}"
    and "returns (lib trp f args)"
    and "exec_block lib post (trp @ [Call f args]) = (c, trq)"
    and "c \<noteq> Terminate"
  shows "exec lib (Block (pre @ DeclS d # post)) tr =
           unwind lib gs (if end_returns lib e trq then c else Terminate,
                          trq @ end_calls e)"
proof -
  from parent_scoped_forms [OF assms(2)]
  have forms: "begin_call d = Call f args" "end_of d = e"
    and ent: "entered lib d trp = returns (lib trp f args)"
    by simp_all
  from ent assms(3) have "entered lib d trp"
    by simp
  from entered_construct_destroy [OF this] obtain g where
    g: "construct lib d trp = Inr (g, trp @ [Call f args])"
       "\<forall>tr2. destroy lib g tr2 = noexcept (call_end lib e tr2)"
    unfolding forms by blast
  have "exec lib (Block (pre @ DeclS d # post)) tr =
          unwind lib [] (exec_block lib (pre @ DeclS d # post) tr)"
    by simp
  also have "\<dots> = unwind lib gs (exec_block lib (DeclS d # post) trp)"
    unfolding unwind_exec_block_append by (simp add: assms(1) del: exec_block.simps)
  also have "exec_block lib (DeclS d # post) trp = scope_exit lib g (c, trq)"
    using g(1) assms(4) by simp
  also have "\<dots> = (if end_returns lib e trq then c else Terminate, trq @ end_calls e)"
    by (rule scope_exit_entered [OF g(2) assms(5)])
  finally show ?thesis .
qed

theorem parent_scoped_witness:
  "exec (\<lambda>tr f va. Returns False)
     (Block [DeclS (set_StyleColor T_uint (Arg (0::nat)) (Arg 255)),
             ExprS (ImGui ''Text'') [], DeclS (set_Font [Arg (1::nat)]),
             ExprS (ImGui ''Button'') [], ExprS (ImGui ''SameLine'') []]) [] =
   (Normal, [Call (ImGuiAs ''PushStyleColor'' [ImGuiCol, ImU32]) [Arg 0, Arg 255],
             Call (ImGui ''Text'') [], Call (ImGui ''PushFont'') [Arg 1],
             Call (ImGui ''Button'') [], Call (ImGui ''SameLine'') [],
             Call (ImGui ''PopFont'') [], Call (ImGui ''PopStyleColor'') [IntLit 1]])
   \<and> exec (\<lambda>tr f va. Returns False)
     (Block [DeclS (set_StyleVar T_float (Arg (2::nat)) (Arg 3)),
             ExprS (ImGui ''Text'') [], ReturnS, ExprS (ImGui ''Button'') []]) [] =
   (Return, [Call (ImGuiAs ''PushStyleVar'' [ImGuiStyleVar, T_float]) [Arg 2, Arg 3],
             Call (ImGui ''Text'') [], Call (ImGui ''PopStyleVar'') [IntLit 1]])"
  using parent_scoped_releases_at_block_close [where lib = "\<lambda>tr f va. Returns False" and tr = "[]"
      and pre = "[DeclS (set_StyleColor T_uint (Arg (0::nat)) (Arg 255)),
                  ExprS (ImGui ''Text'') []]"
      and gs = "[Obj_guard_void \<lparr>v_end = SugarPopStyleColor\<rparr>]"
      and trp = "[Call (ImGuiAs ''PushStyleColor'' [ImGuiCol, ImU32]) [Arg 0, Arg 255],
                  Call (ImGui ''Text'') []]"
      and d = "set_Font [Arg (1::nat)]" and f = "ImGui ''PushFont''"
      and args = "[Arg (1::nat)]" and e = "ImGuiEnd ''PopFont''"
      and BEGIN = "''PushFont''" and END = "''PopFont''"
      and va = "[Arg (1::nat)]" and ty = T_uint and ITEM = "Arg 0" and col = "Arg 0"
      and post = "[ExprS (ImGui ''Button'') [], ExprS (ImGui ''SameLine'') []]"
      and c = Normal
      and trq = "[Call (ImGuiAs ''PushStyleColor'' [ImGuiCol, ImU32]) [Arg 0, Arg 255],
                  Call (ImGui ''Text'') [], Call (ImGui ''PushFont'') [Arg 1],
                  Call (ImGui ''Button'') [], Call (ImGui ''SameLine'') []]"]
    parent_scoped_releases_at_block_close [where lib = "\<lambda>tr f va. Returns False" and tr = "[]"
      and pre = "[]" and gs = "[]" and trp = "[]"
      and d = "set_StyleVar T_float (Arg (2::nat)) (Arg 3)"
      and f = "ImGuiAs ''PushStyleVar'' (set_StyleVar_Args T_float)"
      and args = "[Arg (2::nat), Arg 3]" and e = SugarPopStyleVar
      and BEGIN = "''PushFont''" and END = "''PopFont''"
      and va = "[]" and ty = T_float and ITEM = "Arg 2" and col = "Arg 3"
      and post = "[ExprS (ImGui ''Text'') [], ReturnS, ExprS (ImGui ''Button'') []]"
      and c = Return
      and trq = "[Call (ImGuiAs ''PushStyleVar'' [ImGuiStyleVar, T_float]) [Arg 2, Arg 3],
                  Call (ImGui ''Text'') []]"]
  by (simp add: set_Font_def SUGAR_PARENT_SCOPED_VOID_N_def set_StyleColor_def
      set_StyleVar_def set_StyleColor_Args_def set_StyleVar_Args_def is_arithmetic_def
      conditional_def PopStyleColor_def PopStyleVar_def end_returns_def guard_defs)

subsection \<open>The overloaded pushes\<close>

text \<open>
  Claim C7. \<^verbatim>\<open>set_StyleColor\<close> instantiates the void guard with \<^verbatim>\<open>ImU32\<close> as
  the second parameter type exactly when \<^verbatim>\<open>decltype\<close> of the trailing argument is an
  integral type, and with \<^verbatim>\<open>const ImVec4&\<close> otherwise; \<^verbatim>\<open>set_StyleVar\<close> with
  \<^verbatim>\<open>float\<close> exactly when it is an arithmetic type, and with \<^verbatim>\<open>const ImVec2&\<close>
  otherwise. Either way \<^verbatim>\<open>&ImGui::PushStyleColor\<close> (\<^verbatim>\<open>&ImGui::PushStyleVar\<close>)
  then denotes an overload the library has, the one with those parameter types, and that
  overload is the function the declaration calls: it is fixed by the type alone, whatever
  the values and the library's answers are.
\<close>

theorem style_overload_by_type:
  "address_of ''PushStyleColor'' PushStyleColor_overloads (set_StyleColor_Args ty) =
     Some (ImGuiAs ''PushStyleColor''
             [ImGuiCol, if is_integral ty then ImU32 else T_lref (T_const ImVec4)])
   \<and> address_of ''PushStyleVar'' PushStyleVar_overloads (set_StyleVar_Args ty) =
     Some (ImGuiAs ''PushStyleVar''
             [ImGuiStyleVar, if is_arithmetic ty then T_float else T_lref (T_const ImVec2)])
   \<and> (set_StyleColor_Args ty = [ImGuiCol, ImU32]) = is_integral ty
   \<and> (set_StyleColor_Args ty = [ImGuiCol, T_lref (T_const ImVec4)]) = (\<not> is_integral ty)
   \<and> (set_StyleVar_Args ty = [ImGuiStyleVar, T_float]) = is_arithmetic ty
   \<and> (set_StyleVar_Args ty = [ImGuiStyleVar, T_lref (T_const ImVec2)]) = (\<not> is_arithmetic ty)
   \<and> begin_call (set_StyleColor ty ITEM va) =
       Call (ImGuiAs ''PushStyleColor'' (set_StyleColor_Args ty)) [ITEM, va]
   \<and> begin_call (set_StyleVar ty ITEM va) =
       Call (ImGuiAs ''PushStyleVar'' (set_StyleVar_Args ty)) [ITEM, va]"
  by (simp add: address_of_def PushStyleColor_overloads_def PushStyleVar_overloads_def
      set_StyleColor_Args_def set_StyleVar_Args_def conditional_def set_StyleColor_def
      set_StyleVar_def ImU32_def ImVec4_def ImVec2_def)

theorem style_overload_witness:
  "set_StyleColor_Args T_uint = [ImGuiCol, ImU32]
   \<and> set_StyleColor_Args (T_const T_int) = [ImGuiCol, ImU32]
   \<and> set_StyleColor_Args ImVec4 = [ImGuiCol, T_lref (T_const ImVec4)]
   \<and> set_StyleColor_Args (T_lref T_uint) = [ImGuiCol, T_lref (T_const ImVec4)]
   \<and> set_StyleVar_Args T_float = [ImGuiStyleVar, T_float]
   \<and> set_StyleVar_Args T_int = [ImGuiStyleVar, T_float]
   \<and> set_StyleVar_Args ImVec2 = [ImGuiStyleVar, T_lref (T_const ImVec2)]"
  using style_overload_by_type [of T_uint "Arg (0::nat)" "Arg 0"]
    style_overload_by_type [of "T_const T_int" "Arg (0::nat)" "Arg 0"]
    style_overload_by_type [of ImVec4 "Arg (0::nat)" "Arg 0"]
    style_overload_by_type [of "T_lref T_uint" "Arg (0::nat)" "Arg 0"]
    style_overload_by_type [of T_float "Arg (0::nat)" "Arg 0"]
    style_overload_by_type [of T_int "Arg (0::nat)" "Arg 0"]
    style_overload_by_type [of ImVec2 "Arg (0::nat)" "Arg 0"]
  by (simp add: is_arithmetic_def ImVec4_def ImVec2_def set_StyleColor_Args_def
      set_StyleVar_Args_def conditional_def)

subsection \<open>Ownership of the release obligation\<close>

text \<open>
  Claim C8, as the code has it. Every guard object, of any of the three classes and under
  either policy, makes through its destructor the calls of at most one invocation of its
  end-function: of exactly one when the policy is always-release or the state is true (and
  always for the void guard), of none otherwise; and leaving the guard's scope, however
  the scope's statements completed, runs that destructor once. The macros declare each
  guard by list-initialisation in place and never copy it.
\<close>

theorem guard_releases_at_most_once:
  "snd (destroy lib g tr) = (if releases g then tr @ end_calls (guard_end g) else tr)
   \<and> snd (scope_exit lib g (c, tr)) =
       (if c \<noteq> Terminate \<and> releases g then tr @ end_calls (guard_end g) else tr)
   \<and> length (end_calls (guard_end g) :: 'a event list) = 1"
  by (cases "guard_end g") (simp_all add: snd_destroy snd_scope_exit del: scope_exit.simps)

theorem guard_releases_at_most_once_witness:
  "snd (destroy (\<lambda>tr f va. Returns True)
          (Obj_guard_bool False (guard_bool_ctor False (ImGuiEnd ''EndCombo'')))
          ([] :: nat event list)) = []
   \<and> snd (scope_exit (\<lambda>tr f va. Returns True)
            (Obj_guard_bool True (guard_bool_ctor False (ImGuiEnd ''End'')))
            (Throw 1, [] :: nat event list)) = [Call (ImGui ''End'') []]"
  using guard_releases_at_most_once
    [where lib = "\<lambda>tr f va. Returns True"
       and g = "Obj_guard_bool False (guard_bool_ctor False (ImGuiEnd ''EndCombo''))"
       and tr = "[] :: nat event list"]
    guard_releases_at_most_once
    [where lib = "\<lambda>tr f va. Returns True"
       and g = "Obj_guard_bool True (guard_bool_ctor False (ImGuiEnd ''End''))"
       and tr = "[] :: nat event list" and c = "Throw 1"]
  by (simp add: guard_defs)

text \<open>
  The claim as the spec states it fails: none of the guard structs disables copying, so a
  guard can be copied (and moved, by copying), and a block that holds a guard and a copy
  of it invokes the same end-function twice for one begin.
\<close>

theorem guard_copy_counterexample:
  "copy_constructible guard_bool_members \<and> move_constructible guard_bool_members
   \<and> copy_constructible guard_void_members \<and> move_constructible guard_void_members
   \<and> copy_constructible BooleanGuard_members \<and> move_constructible BooleanGuard_members
   \<and> guard_and_copy False (\<lambda>tr f va. Returns True) True (ImGuiEnd ''EndCombo'')
       [Call (ImGui ''BeginCombo'') [Arg (0::nat)]] =
     (Normal, [Call (ImGui ''BeginCombo'') [Arg 0], Call (ImGui ''EndCombo'') [],
               Call (ImGui ''EndCombo'') []])"
  by (simp add: copy_constructible_def move_constructible_def guard_bool_members_def
      guard_void_members_def BooleanGuard_members_def guard_and_copy_def
      guard_bool_copy_def guard_bool_ctor_def guard_bool_dtor_def imgui_call_def)

subsection \<open>The two expansions of the void entries\<close>

text \<open>
  Claim C9. For every begin-function, argument list and body, and whatever the library
  answers, the expansion on the void guard and the expansion on
  \<^verbatim>\<open>BooleanGuard<true>\<close> fed by the expression statement make the same calls in
  the same order, as a block of their own and as a declaration in a block. When the
  begin-function returns they also complete alike, and the calls are the begin call, those
  of one run of the body, and one call of the end-function. (When it raises, both stop
  after the begin call: the void guard's \<^verbatim>\<open>noexcept\<close> constructor by terminating,
  the expression statement by passing the exception on.)
\<close>

theorem void_expansions_same_trace:
  "snd (exec lib (SUGAR_SCOPED_VOID_N BEGIN END va body) tr) =
   snd (exec lib (IMGUI_SUGAR_SCOPED_VOID_N BEGIN END va body) tr)
   \<and> snd (exec lib (SUGAR_SCOPED_VOID_0 BEGIN END body) tr) =
     snd (exec lib (IMGUI_SUGAR_SCOPED_VOID_0 BEGIN END body) tr)
   \<and> snd (exec_block lib (DeclS (SUGAR_PARENT_SCOPED_VOID_N BEGIN END va) # post) tr) =
     snd (exec_block lib (DeclS (IMGUI_SUGAR_PARENT_SCOPED_VOID_N BEGIN END va) # post) tr)
   \<and> (returns (lib tr (ImGui BEGIN) va) \<longrightarrow>
        exec lib (SUGAR_SCOPED_VOID_N BEGIN END va body) tr =
        exec lib (IMGUI_SUGAR_SCOPED_VOID_N BEGIN END va body) tr
        \<and> exec_block lib (DeclS (SUGAR_PARENT_SCOPED_VOID_N BEGIN END va) # post) tr =
          exec_block lib (DeclS (IMGUI_SUGAR_PARENT_SCOPED_VOID_N BEGIN END va) # post) tr)
   \<and> (returns (lib tr (ImGui BEGIN) []) \<longrightarrow>
        exec lib (SUGAR_SCOPED_VOID_0 BEGIN END body) tr =
        exec lib (IMGUI_SUGAR_SCOPED_VOID_0 BEGIN END body) tr)
   \<and> (returns (lib tr (ImGui BEGIN) va) \<and>
        exec lib body (tr @ [Call (ImGui BEGIN) va]) = (c, tr') \<and> c \<noteq> Terminate \<longrightarrow>
        snd (exec lib (IMGUI_SUGAR_SCOPED_VOID_N BEGIN END va body) tr) =
          tr' @ [Call (ImGui END) []])"
  unfolding SUGAR_SCOPED_VOID_N_def IMGUI_SUGAR_SCOPED_VOID_N_def
    SUGAR_SCOPED_VOID_0_def IMGUI_SUGAR_SCOPED_VOID_0_def
    SUGAR_PARENT_SCOPED_VOID_N_def IMGUI_SUGAR_PARENT_SCOPED_VOID_N_def
    IMGUI_SUGAR_ES_def IMGUI_SUGAR_ES_0_def
    exec_void_guard exec_expression_statement_guard
    exec_block_void_guard exec_block_expression_statement_guard
  by (cases "lib tr (ImGui BEGIN) va"; cases "lib tr (ImGui BEGIN) []")
     (simp_all add: snd_scope_exit guard_void_dtor_def snd_noexcept imgui_call_def
        del: scope_exit.simps)

theorem void_expansions_witness:
  "exec (\<lambda>tr f va. Returns True)
     (SUGAR_SCOPED_VOID_N ''PushItemWidth'' ''PopItemWidth'' [Arg (80::nat)]
        (ExprS (ImGui ''Button'') [])) [] =
   exec (\<lambda>tr f va. Returns True)
     (IMGUI_SUGAR_SCOPED_VOID_N ''PushItemWidth'' ''PopItemWidth'' [Arg (80::nat)]
        (ExprS (ImGui ''Button'') [])) []
   \<and> snd (exec (\<lambda>tr f va. Returns True)
       (IMGUI_SUGAR_SCOPED_VOID_N ''PushItemWidth'' ''PopItemWidth'' [Arg (80::nat)]
          (ExprS (ImGui ''Button'') [])) []) =
     [Call (ImGui ''PushItemWidth'') [Arg 80], Call (ImGui ''Button'') [],
      Call (ImGui ''PopItemWidth'') []]"
  using void_expansions_same_trace
    [where lib = "\<lambda>tr f va. Returns True" and tr = "[]" and BEGIN = "''PushItemWidth''"
       and END = "''PopItemWidth''" and va = "[Arg (80::nat)]"
       and body = "ExprS (ImGui ''Button'') []" and c = Normal and post = "[]"
       and tr' = "[Call (ImGui ''PushItemWidth'') [Arg 80], Call (ImGui ''Button'') []]"]
  by (simp add: SUGAR_SCOPED_VOID_N_def IMGUI_SUGAR_SCOPED_VOID_N_def IMGUI_SUGAR_ES_def
      SUGAR_SCOPED_VOID_0_def IMGUI_SUGAR_SCOPED_VOID_0_def IMGUI_SUGAR_ES_0_def
      SUGAR_PARENT_SCOPED_VOID_N_def IMGUI_SUGAR_PARENT_SCOPED_VOID_N_def guard_defs)

subsection \<open>The pop wrappers\<close>

text \<open>
  Claim C10. \<^verbatim>\<open>PopStyleColor()\<close> of the header is the call
  \<^verbatim>\<open>ImGui::PopStyleColor(1)\<close> and \<^verbatim>\<open>PopStyleVar()\<close> is
  \<^verbatim>\<open>ImGui::PopStyleVar(1)\<close>. Every style construct, in both versions of the header,
  as a block of its own and as a declaration in a block, makes one push call and, whenever
  that call returns, whatever it returns, ends with the one call
  \<^verbatim>\<open>ImGui::PopStyleColor(1)\<close> (\<^verbatim>\<open>ImGui::PopStyleVar(1)\<close> for a style
  variable) after its body or the rest of the block: the style stack grows by one entry
  where the construct is entered, and its release takes one entry off.
\<close>

theorem style_constructs_push_one_pop_one:
  assumes "(d, w, f, args, pop) \<in>
       {(set_StyleColor ty ITEM col, with_StyleColor ty ITEM col body,
           ImGuiAs ''PushStyleColor'' (set_StyleColor_Args ty), [ITEM, col], ''PopStyleColor''),
        (set_StyleVar ty ITEM col, with_StyleVar ty ITEM col body,
           ImGuiAs ''PushStyleVar'' (set_StyleVar_Args ty), [ITEM, col], ''PopStyleVar''),
        (ImGuiSugar_set_StyleColor va, ImGuiSugar_with_StyleColor va body,
           ImGui ''PushStyleColor'', va, ''PopStyleColor''),
        (ImGuiSugar_set_StyleVar va, ImGuiSugar_with_StyleVar va body,
           ImGui ''PushStyleVar'', va, ''PopStyleVar'')}"
    and "returns (lib tr f args)"
    and "exec lib body (tr @ [Call f args]) = (c, tr')"
    and "c \<noteq> Terminate"
    and "exec_block lib post (tr @ [Call f args]) = (cp, trp)"
    and "cp \<noteq> Terminate"
  shows "PopStyleColor lib trx = imgui_call lib (ImGui ''PopStyleColor'') [IntLit 1] trx
       \<and> PopStyleVar lib trx = imgui_call lib (ImGui ''PopStyleVar'') [IntLit 1] trx
       \<and> snd (exec lib w tr) = tr' @ [Call (ImGui pop) [IntLit 1]]
       \<and> snd (exec lib (Block (DeclS d # post)) tr) = trp @ [Call (ImGui pop) [IntLit 1]]
       \<and> style_color_depth (tr @ [Call f args]) =
           style_color_depth tr + (if pop = ''PopStyleColor'' then 1 else 0)
       \<and> style_var_depth (tr @ [Call f args]) =
           style_var_depth tr + (if pop = ''PopStyleVar'' then 1 else 0)
       \<and> style_color_depth (snd (exec lib w tr)) =
           style_color_depth tr' - (if pop = ''PopStyleColor'' then 1 else 0)
       \<and> style_var_depth (snd (exec lib w tr)) =
           style_var_depth tr' - (if pop = ''PopStyleVar'' then 1 else 0)
       \<and> style_color_depth (snd (exec lib (Block (DeclS d # post)) tr)) =
           style_color_depth trp - (if pop = ''PopStyleColor'' then 1 else 0)
       \<and> style_var_depth (snd (exec lib (Block (DeclS d # post)) tr)) =
           style_var_depth trp - (if pop = ''PopStyleVar'' then 1 else 0)"
proof -
  have wrappers:
    "PopStyleColor lib trx = imgui_call lib (ImGui ''PopStyleColor'') [IntLit 1] trx"
    "PopStyleVar lib trx = imgui_call lib (ImGui ''PopStyleVar'') [IntLit 1] trx"
    by (simp_all add: PopStyleColor_def PopStyleVar_def)
  from style_forms [OF assms(1), where lib = lib and tr = tr]
  have w: "w = IfDecl d body" and b: "begin_call d = Call f args"
    and e: "end_calls (end_of d) = [Call (ImGui pop) [IntLit 1] :: 'a event]"
    and ent: "entered lib d tr = returns (lib tr f args)"
    and push: "style_color_delta (Call f args :: 'a event) =
                 (if pop = ''PopStyleColor'' then 1 else 0)"
      "style_var_delta (Call f args :: 'a event) = (if pop = ''PopStyleVar'' then 1 else 0)"
    by simp_all
  from assms(1) have pop: "pop = ''PopStyleColor'' \<or> pop = ''PopStyleVar''"
    by auto
  from ent assms(2) have "entered lib d tr"
    by simp
  from entered_construct_destroy [OF this] obtain g where
    g: "construct lib d tr = Inr (g, tr @ [Call f args])" "operator_bool g"
       "\<forall>tr2. destroy lib g tr2 = noexcept (call_end lib (end_of d) tr2)"
    unfolding b by blast
  have "exec lib w tr = scope_exit lib g (c, tr')"
    using g(1,2) assms(3) by (simp add: w)
  then have block: "snd (exec lib w tr) = tr' @ [Call (ImGui pop) [IntLit 1]]"
    using scope_exit_entered [OF g(3) assms(4), of tr'] by (simp add: e)
  have "exec lib (Block (DeclS d # post)) tr = scope_exit lib g (cp, trp)"
    using g(1) assms(5) by simp
  then have parent: "snd (exec lib (Block (DeclS d # post)) tr) =
      trp @ [Call (ImGui pop) [IntLit 1]]"
    using scope_exit_entered [OF g(3) assms(6), of trp] by (simp add: e)
  have depth:
    "style_color_depth (tr @ [Call f args]) =
       style_color_depth tr + (if pop = ''PopStyleColor'' then 1 else 0)"
    "style_var_depth (tr @ [Call f args]) =
       style_var_depth tr + (if pop = ''PopStyleVar'' then 1 else 0)"
    "\<And>t :: 'a event list. style_color_depth (t @ [Call (ImGui pop) [IntLit 1]]) =
       style_color_depth t - (if pop = ''PopStyleColor'' then 1 else 0)"
    "\<And>t :: 'a event list. style_var_depth (t @ [Call (ImGui pop) [IntLit 1]]) =
       style_var_depth t - (if pop = ''PopStyleVar'' then 1 else 0)"
    using pop push by (auto simp: style_color_depth_def style_var_depth_def)
  show ?thesis
    unfolding block parent using wrappers depth by simp
qed

theorem style_constructs_witness:
  "snd (exec (\<lambda>tr f va. Returns False)
          (with_StyleColor T_uint (Arg (0::nat)) (Arg 255) (ExprS (ImGui ''Text'') [])) []) =
     [Call (ImGuiAs ''PushStyleColor'' [ImGuiCol, ImU32]) [Arg 0, Arg 255],
      Call (ImGui ''Text'') [], Call (ImGui ''PopStyleColor'') [IntLit 1]]
   \<and> snd (exec (\<lambda>tr f va. Returns False)
          (Block [DeclS (ImGuiSugar_set_StyleVar [Arg (1::nat), Arg 2]),
                  ExprS (ImGui ''Text'') [], ExprS (ImGui ''Button'') []]) []) =
     [Call (ImGui ''PushStyleVar'') [Arg 1, Arg 2], Call (ImGui ''Text'') [],
      Call (ImGui ''Button'') [], Call (ImGui ''PopStyleVar'') [IntLit 1]]
   \<and> style_color_depth
       [Call (ImGuiAs ''PushStyleColor'' [ImGuiCol, ImU32]) [Arg (0::nat), Arg 255],
        Call (ImGui ''Text'') [], Call (ImGui ''PopStyleColor'') [IntLit 1]] = 0"
  using style_constructs_push_one_pop_one
    [where lib = "\<lambda>tr f va. Returns False" and tr = "[]" and ty = T_uint
       and ITEM = "Arg (0::nat)" and col = "Arg 255" and va = "[]"
       and d = "set_StyleColor T_uint (Arg (0::nat)) (Arg 255)"
       and w = "with_StyleColor T_uint (Arg (0::nat)) (Arg 255) (ExprS (ImGui ''Text'') [])"
       and f = "ImGuiAs ''PushStyleColor'' (set_StyleColor_Args T_uint)"
       and args = "[Arg (0::nat), Arg 255]" and pop = "''PopStyleColor''"
       and body = "ExprS (ImGui ''Text'') []" and c = Normal and trx = "[]"
       and tr' = "[Call (ImGuiAs ''PushStyleColor'' [ImGuiCol, ImU32]) [Arg 0, Arg 255],
                   Call (ImGui ''Text'') []]"
       and post = "[]" and cp = Normal
       and trp = "[Call (ImGuiAs ''PushStyleColor'' [ImGuiCol, ImU32]) [Arg 0, Arg 255]]"]
    style_constructs_push_one_pop_one
    [where lib = "\<lambda>tr f va. Returns False" and tr = "[]" and ty = T_uint
       and ITEM = "Arg (0::nat)" and col = "Arg 255" and va = "[Arg (1::nat), Arg 2]"
       and d = "ImGuiSugar_set_StyleVar [Arg (1::nat), Arg 2]"
       and w = "ImGuiSugar_with_StyleVar [Arg (1::nat), Arg 2] (ExprS (ImGui ''Text'') [])"
       and f = "ImGui ''PushStyleVar''"
       and args = "[Arg (1::nat), Arg 2]" and pop = "''PopStyleVar''"
       and body = "ExprS (ImGui ''Text'') []" and c = Normal and trx = "[]"
       and tr' = "[Call (ImGui ''PushStyleVar'') [Arg 1, Arg 2], Call (ImGui ''Text'') []]"
       and post = "[ExprS (ImGui ''Text'') [], ExprS (ImGui ''Button'') []]" and cp = Normal
       and trp = "[Call (ImGui ''PushStyleVar'') [Arg 1, Arg 2], Call (ImGui ''Text'') [],
                   Call (ImGui ''Button'') []]"]
  by (simp add: with_StyleColor_def with_StyleVar_def set_StyleColor_def set_StyleVar_def
      ImGuiSugar_with_StyleColor_def ImGuiSugar_with_StyleVar_def
      ImGuiSugar_set_StyleColor_def ImGuiSugar_set_StyleVar_def IMGUI_SUGAR_ES_def
      set_StyleColor_Args_def set_StyleVar_Args_def is_arithmetic_def conditional_def
      PopStyleColor_def PopStyleVar_def style_color_depth_def style_var_depth_def guard_defs)

end
